theory Spec2Isabelle
  imports Main
begin

section \<open>The settings registry of \<open>src/main/settings.ts\<close>\<close>

text \<open>
  The registry is what \<open>SettingsManager\<close> keeps in its electron-store: a JSON document.
  Every method reads a fresh copy with \<open>store.get\<close>, changes the copy and writes it back
  with \<open>store.set\<close>, so a method is a function from the stored settings to the stored
  settings. The notifications sent with \<open>emit\<close> carry no state and are left out.

  Strings stand for their UTF-8 bytes (a \<open>char\<close> is a byte), which is what
  \<open>Buffer.from(data, 'utf-8')\<close> hands to the base64 encoder.
\<close>

subsection \<open>JavaScript values\<close>

text \<open>
  The value of a string property of a stored or parsed JSON object: the property is
  missing (a read gives \<open>undefined\<close>, and a property set to \<open>undefined\<close> is dropped when
  the store serializes), it is \<open>null\<close>, or it is a string. Equality of these values is
  \<open>===\<close>: \<open>undefined\<close> and \<open>null\<close> are equal to themselves and to nothing else. A
  value is truthy when it is a non-empty string; \<open>a || b\<close> is \<open>a\<close> when \<open>a\<close> is truthy,
  else \<open>b\<close>. A property that holds something else than a string is outside the model.
\<close>

datatype JsString = Undefined | Null | Str string

definition truthy :: "JsString \<Rightarrow> bool" where
  "truthy v = (case v of Str s \<Rightarrow> s \<noteq> [] | _ \<Rightarrow> False)"

definition js_or :: "JsString \<Rightarrow> JsString \<Rightarrow> JsString" where
  "js_or a b = (if truthy a then a else b)"

text \<open>\<open>Array.prototype.findIndex\<close>: the first index whose element passes, \<open>None\<close> for -1.\<close>

fun findIndex :: "('a \<Rightarrow> bool) \<Rightarrow> 'a list \<Rightarrow> nat option" where
  "findIndex P [] = None"
| "findIndex P (x # xs) = (if P x then Some 0 else map_option Suc (findIndex P xs))"

subsection \<open>Data model\<close>

text \<open>
  The interfaces \<open>ClaudeAccount\<close> and \<open>ThirdPartyAccount\<close> are erased at run time, and
  the code reads the account list of a provider through unchecked casts
  (\<open>provider.accounts as ThirdPartyAccount[]\<close>). An account is therefore the JSON object
  it is: each property of either interface is missing, \<open>null\<close> or a string. The same
  record is an account entry of an export document. \<open>acc_id\<close> and \<open>acc_name\<close> are the properties
  \<open>id\<close> and \<open>name\<close>.
\<close>

record Account =
  accountUuid :: JsString
  emailAddress :: JsString
  organizationUuid :: JsString
  organizationRole :: JsString
  workspaceRole :: JsString
  organizationName :: JsString
  authorization :: JsString
  acc_id :: JsString
  acc_name :: JsString
  apiKey :: JsString
  baseUrl :: JsString
  description :: JsString

text \<open>The two interfaces, as the objects a well-typed caller builds.\<close>

definition ClaudeAccount ::
  "string \<Rightarrow> string \<Rightarrow> string \<Rightarrow> string \<Rightarrow> JsString \<Rightarrow> string \<Rightarrow> JsString \<Rightarrow> Account" where
  "ClaudeAccount uuid email orgUuid orgRole wsRole orgName auth =
     \<lparr> accountUuid = Str uuid, emailAddress = Str email, organizationUuid = Str orgUuid,
       organizationRole = Str orgRole, workspaceRole = wsRole, organizationName = Str orgName,
       authorization = auth,
       acc_id = Undefined, acc_name = Undefined, apiKey = Undefined, baseUrl = Undefined, description = Undefined \<rparr>"

definition ThirdPartyAccount ::
  "string \<Rightarrow> string \<Rightarrow> string \<Rightarrow> string \<Rightarrow> JsString \<Rightarrow> Account" where
  "ThirdPartyAccount i n key base descr =
     \<lparr> accountUuid = Undefined, emailAddress = Undefined, organizationUuid = Undefined,
       organizationRole = Undefined, workspaceRole = Undefined, organizationName = Undefined,
       authorization = Undefined,
       acc_id = Str i, acc_name = Str n, apiKey = Str key, baseUrl = Str base,
       description = descr \<rparr>"

datatype ProviderType = claude_official | third_party

record ServiceProvider =
  prov_id :: string
  prov_type :: ProviderType
  prov_name :: JsString
  accounts :: "Account list"
  activeAccountId :: JsString
  useProxy :: bool

record ProxyAuth =
  username :: string
  password :: string

record ProxyConfig =
  enabled :: bool
  url :: string
  auth :: "ProxyAuth option"

record ApiProvider =
  api_id :: string
  api_name :: string
  api_baseUrl :: string
  api_apiKey :: string

datatype Theme = dark | light

record Terminal =
  fontSize :: int
  fontFamily :: string
  theme :: Theme
  skipPermissions :: bool

record ProjectFilter =
  hiddenDirectories :: "string list"

record AppSettings =
  proxyConfig :: ProxyConfig
  apiProviders :: "ApiProvider list"
  activeProviderId :: string
  serviceProviders :: "ServiceProvider list"
  activeServiceProviderId :: string
  terminal :: Terminal
  projectFilter :: ProjectFilter

definition defaultSettings :: AppSettings where
  "defaultSettings =
     \<lparr> proxyConfig = \<lparr> enabled = False, url = ''http://127.0.0.1:1087'', auth = None \<rparr>,
       apiProviders = [],
       activeProviderId = [],
       serviceProviders = [],
       activeServiceProviderId = [],
       terminal = \<lparr> fontSize = 14, fontFamily = ''Monaco, Consolas, monospace'',
                    theme = dark, skipPermissions = True \<rparr>,
       projectFilter = \<lparr> hiddenDirectories =
         [''.git'', ''.svn'', ''.hg'', ''node_modules'', ''.DS_Store'', ''.vscode'', ''.idea'',
          ''dist'', ''build'', ''.next'', ''.nuxt'', ''coverage'', ''.nyc_output'', ''tmp'',
          ''temp'', ''.cache'', ''.parcel-cache'', ''.env.local'', ''.env.development.local'',
          ''.env.test.local'', ''.env.production.local''] \<rparr> \<rparr>"

subsection \<open>Providers\<close>

definition getServiceProviders :: "AppSettings \<Rightarrow> ServiceProvider list" where
  "getServiceProviders s = serviceProviders s"

definition addServiceProvider :: "ServiceProvider \<Rightarrow> AppSettings \<Rightarrow> AppSettings" where
  "addServiceProvider provider s =
     (let providers = getServiceProviders s in
      case findIndex (\<lambda>p. prov_id p = prov_id provider) providers of
        Some existingIndex \<Rightarrow> s\<lparr>serviceProviders := providers[existingIndex := provider]\<rparr>
      | None \<Rightarrow> s\<lparr>serviceProviders := providers @ [provider]\<rparr>)"

definition removeServiceProvider :: "string \<Rightarrow> AppSettings \<Rightarrow> AppSettings" where
  "removeServiceProvider providerId s =
     (let providers = filter (\<lambda>p. prov_id p \<noteq> providerId) (getServiceProviders s);
          s1 = s\<lparr>serviceProviders := providers\<rparr>
      in if activeServiceProviderId s1 = providerId
         then s1\<lparr>activeServiceProviderId := []\<rparr> else s1)"

definition getActiveServiceProvider :: "AppSettings \<Rightarrow> ServiceProvider option" where
  "getActiveServiceProvider s =
     find (\<lambda>p. prov_id p = activeServiceProviderId s) (getServiceProviders s)"

definition setActiveProvider :: "string \<Rightarrow> AppSettings \<Rightarrow> AppSettings" where
  "setActiveProvider providerId s = s\<lparr>activeProviderId := providerId\<rparr>"

definition setActiveServiceProvider :: "string \<Rightarrow> AppSettings \<Rightarrow> AppSettings" where
  "setActiveServiceProvider providerId s = s\<lparr>activeServiceProviderId := providerId\<rparr>"

subsection \<open>Official accounts\<close>

text \<open>The provider \<open>updateClaudeAccounts\<close> makes when none of the official type is stored.\<close>

definition newClaudeProvider :: ServiceProvider where
  "newClaudeProvider =
     \<lparr> prov_id = ''claude_official'', prov_type = claude_official,
       prov_name = Str ''Claude Official'', accounts = [], activeAccountId = Str [],
       useProxy = True \<rparr>"

definition findClaudeProvider :: "AppSettings \<Rightarrow> ServiceProvider option" where
  "findClaudeProvider s = find (\<lambda>p. prov_type p = claude_official) (getServiceProviders s)"

text \<open>The body of the \<open>forEach\<close> of \<open>updateClaudeAccounts\<close>, on the array being updated.\<close>

definition mergeAccount :: "Account list \<Rightarrow> Account \<Rightarrow> Account list" where
  "mergeAccount updatedAccounts newAccount =
     (case findIndex (\<lambda>existing. emailAddress existing = emailAddress newAccount)
             updatedAccounts of
        Some existingIndex \<Rightarrow>
          updatedAccounts[existingIndex :=
            newAccount\<lparr>authorization :=
              js_or (authorization (updatedAccounts ! existingIndex))
                    (authorization newAccount)\<rparr>]
      | None \<Rightarrow> updatedAccounts @ [newAccount])"

text \<open>The provider \<open>updateClaudeAccounts\<close> works on: the first one of the official type, or a new one.\<close>

definition claudeProviderOrNew :: "AppSettings \<Rightarrow> ServiceProvider" where
  "claudeProviderOrNew s =
     (case findClaudeProvider s of Some p \<Rightarrow> p | None \<Rightarrow> newClaudeProvider)"

definition updateClaudeAccounts :: "Account list \<Rightarrow> AppSettings \<Rightarrow> AppSettings" where
  "updateClaudeAccounts accs s =
     (let claudeProvider = claudeProviderOrNew s;
          existingAccounts = accounts claudeProvider;
          updatedAccounts = foldl mergeAccount existingAccounts accs;
          active =
            (if find (\<lambda>acc. emailAddress acc = activeAccountId claudeProvider) accs = None
             then (case accs of [] \<Rightarrow> Str [] | first # _ \<Rightarrow> emailAddress first)
             else activeAccountId claudeProvider)
      in addServiceProvider
           (claudeProvider\<lparr>accounts := updatedAccounts, activeAccountId := active\<rparr>) s)"

definition updateClaudeAccountAuthorization ::
  "string \<Rightarrow> string \<Rightarrow> AppSettings \<Rightarrow> AppSettings" where
  "updateClaudeAccountAuthorization email token s =
     (case findClaudeProvider s of
        None \<Rightarrow> s
      | Some claudeProvider \<Rightarrow>
          (case findIndex (\<lambda>acc. emailAddress acc = Str email) (accounts claudeProvider) of
             None \<Rightarrow> s
           | Some i \<Rightarrow>
               addServiceProvider
                 (claudeProvider\<lparr>accounts :=
                    (accounts claudeProvider)
                      [i := (accounts claudeProvider ! i)\<lparr>authorization := Str token\<rparr>]\<rparr>) s))"

definition findClaudeAccountByAuthorization :: "string \<Rightarrow> AppSettings \<Rightarrow> Account option" where
  "findClaudeAccountByAuthorization token s =
     (case findClaudeProvider s of
        None \<Rightarrow> None
      | Some claudeProvider \<Rightarrow>
          find (\<lambda>acc. authorization acc = Str token) (accounts claudeProvider))"

subsection \<open>Third-party accounts\<close>

definition addThirdPartyAccount :: "string \<Rightarrow> Account \<Rightarrow> AppSettings \<Rightarrow> AppSettings" where
  "addThirdPartyAccount providerId account s =
     (let provider =
            (case find (\<lambda>p. prov_id p = providerId) (getServiceProviders s) of
               Some p \<Rightarrow> p
             | None \<Rightarrow>
                 \<lparr> prov_id = providerId, prov_type = third_party,
                   prov_name = acc_name account, accounts = [], activeAccountId = Str [],
                   useProxy = True \<rparr>);
          accs =
            (case findIndex (\<lambda>acc. acc_id acc = acc_id account) (accounts provider) of
               Some existingIndex \<Rightarrow> (accounts provider)[existingIndex := account]
             | None \<Rightarrow> accounts provider @ [account]);
          active =
            (if \<not> truthy (activeAccountId provider) \<and> accs \<noteq> []
             then (case accs of [] \<Rightarrow> Undefined | first # _ \<Rightarrow> acc_id first)
             else activeAccountId provider)
      in addServiceProvider (provider\<lparr>accounts := accs, activeAccountId := active\<rparr>) s)"

definition removeThirdPartyAccount :: "string \<Rightarrow> string \<Rightarrow> AppSettings \<Rightarrow> AppSettings" where
  "removeThirdPartyAccount providerId accountId s =
     (case find (\<lambda>p. prov_id p = providerId) (getServiceProviders s) of
        None \<Rightarrow> s
      | Some provider \<Rightarrow>
          (let accs = filter (\<lambda>acc. acc_id acc \<noteq> Str accountId) (accounts provider);
               active =
                 (if activeAccountId provider = Str accountId
                  then (case accs of [] \<Rightarrow> Str [] | first # _ \<Rightarrow> acc_id first)
                  else activeAccountId provider)
           in addServiceProvider (provider\<lparr>accounts := accs, activeAccountId := active\<rparr>) s))"

definition setActiveAccount :: "string \<Rightarrow> string \<Rightarrow> AppSettings \<Rightarrow> AppSettings" where
  "setActiveAccount providerId accountId s =
     (case find (\<lambda>p. prov_id p = providerId) (getServiceProviders s) of
        Some provider \<Rightarrow>
          setActiveServiceProvider providerId
            (addServiceProvider (provider\<lparr>activeAccountId := Str accountId\<rparr>) s)
      | None \<Rightarrow> s)"

text \<open>The key by which \<open>getCurrentActiveAccount\<close> looks the active account up.\<close>

definition naturalKey :: "ProviderType \<Rightarrow> Account \<Rightarrow> JsString" where
  "naturalKey t acc = (case t of claude_official \<Rightarrow> emailAddress acc | third_party \<Rightarrow> acc_id acc)"

definition getCurrentActiveAccount :: "AppSettings \<Rightarrow> (ServiceProvider \<times> Account) option" where
  "getCurrentActiveAccount s =
     (case getActiveServiceProvider s of
        None \<Rightarrow> None
      | Some activeProvider \<Rightarrow>
          if \<not> truthy (activeAccountId activeProvider) then None
          else (case find (\<lambda>acc. naturalKey (prov_type activeProvider) acc
                                    = activeAccountId activeProvider)
                       (accounts activeProvider) of
                  None \<Rightarrow> None
                | Some account \<Rightarrow> Some (activeProvider, account)))"

definition setProviderProxyUsage :: "string \<Rightarrow> bool \<Rightarrow> AppSettings \<Rightarrow> AppSettings" where
  "setProviderProxyUsage providerId b s =
     (case find (\<lambda>p. prov_id p = providerId) (getServiceProviders s) of
        Some provider \<Rightarrow> addServiceProvider (provider\<lparr>useProxy := b\<rparr>) s
      | None \<Rightarrow> s)"

definition shouldUseProxyForCurrentProvider :: "AppSettings \<Rightarrow> bool" where
  "shouldUseProxyForCurrentProvider s =
     (case getActiveServiceProvider s of None \<Rightarrow> True | Some p \<Rightarrow> useProxy p)"

subsection \<open>Other sections of the settings\<close>

text \<open>A \<open>Partial\<close> of a section: each property present or missing; \<open>{...current, ...config}\<close>.\<close>

record PartialProxyConfig =
  pp_enabled :: "bool option"
  pp_url :: "string option"
  pp_auth :: "ProxyAuth option"

record PartialTerminal =
  pt_fontSize :: "int option"
  pt_fontFamily :: "string option"
  pt_theme :: "Theme option"
  pt_skipPermissions :: "bool option"

record PartialProjectFilter =
  pf_hiddenDirectories :: "string list option"

definition updateProxyConfig :: "PartialProxyConfig \<Rightarrow> AppSettings \<Rightarrow> AppSettings" where
  "updateProxyConfig config s =
     (let current = proxyConfig s in
      s\<lparr>proxyConfig :=
          \<lparr> enabled = (case pp_enabled config of Some b \<Rightarrow> b | None \<Rightarrow> enabled current),
            url = (case pp_url config of Some u \<Rightarrow> u | None \<Rightarrow> url current),
            auth = (case pp_auth config of Some a \<Rightarrow> Some a | None \<Rightarrow> auth current) \<rparr>\<rparr>)"

definition updateTerminalConfig :: "PartialTerminal \<Rightarrow> AppSettings \<Rightarrow> AppSettings" where
  "updateTerminalConfig config s =
     (let current = terminal s in
      s\<lparr>terminal :=
          \<lparr> fontSize = (case pt_fontSize config of Some v \<Rightarrow> v | None \<Rightarrow> fontSize current),
            fontFamily =
              (case pt_fontFamily config of Some v \<Rightarrow> v | None \<Rightarrow> fontFamily current),
            theme = (case pt_theme config of Some v \<Rightarrow> v | None \<Rightarrow> theme current),
            skipPermissions =
              (case pt_skipPermissions config of Some v \<Rightarrow> v
               | None \<Rightarrow> skipPermissions current) \<rparr>\<rparr>)"

definition updateProjectFilterConfig :: "PartialProjectFilter \<Rightarrow> AppSettings \<Rightarrow> AppSettings" where
  "updateProjectFilterConfig config s =
     (let current = projectFilter s in
      s\<lparr>projectFilter :=
          \<lparr> hiddenDirectories =
              (case pf_hiddenDirectories config of Some v \<Rightarrow> v
               | None \<Rightarrow> hiddenDirectories current) \<rparr>\<rparr>)"

subsection \<open>Encoding of sensitive data\<close>

text \<open>
  \<open>Buffer\<close> belongs to Node.js, not to the repository. \<open>toString('base64')\<close> is the
  base64 of RFC 4648 with padding. \<open>Buffer.from(s, 'base64')\<close> is Node's decoder, which
  never raises: it skips every character outside the alphabet (the URL-safe \<open>-\<close> and
  \<open>_\<close> count as \<open>+\<close> and \<open>/\<close>), stops at the first \<open>=\<close>, and decodes a last
  group of two or three characters without its padding. With strings as UTF-8 bytes,
  \<open>Buffer.from(data, 'utf-8')\<close> and \<open>toString('utf-8')\<close> carry the bytes over. This
  holds for the encoded texts that are ASCII and for the decoded bytes that are UTF-8:
  Node reads a character of the encoded text above U+00FF by its low byte, and
  \<open>toString('utf-8')\<close> writes U+FFFD for bytes that are not UTF-8, and neither is part of
  these definitions.
\<close>

definition b64char :: "nat \<Rightarrow> char" where
  "b64char n =
     (if n < 26 then char_of (n + 65)
      else if n < 52 then char_of (n + 71)
      else if n < 62 then char_of (n - 4)
      else if n = 62 then CHR ''+'' else CHR ''/'')"

definition unbase64 :: "char \<Rightarrow> nat option" where
  "unbase64 c =
     (let k = (of_char c :: nat) in
      if 65 \<le> k \<and> k \<le> 90 then Some (k - 65)
      else if 97 \<le> k \<and> k \<le> 122 then Some (k - 71)
      else if 48 \<le> k \<and> k \<le> 57 then Some (k + 4)
      else if c = CHR ''+'' \<or> c = CHR ''-'' then Some 62
      else if c = CHR ''/'' \<or> c = CHR ''_'' then Some 63
      else None)"

fun base64_encode :: "string \<Rightarrow> string" where
  "base64_encode [] = []"
| "base64_encode [a] =
     (let x = (of_char a :: nat) in
      [b64char (x div 4), b64char ((x mod 4) * 16), CHR ''='', CHR ''=''])"
| "base64_encode [a, b] =
     (let x = (of_char a :: nat); y = (of_char b :: nat) in
      [b64char (x div 4), b64char ((x mod 4) * 16 + y div 16), b64char ((y mod 16) * 4),
       CHR ''=''])"
| "base64_encode (a # b # c # rest) =
     (let x = (of_char a :: nat); y = (of_char b :: nat); z = (of_char c :: nat) in
      b64char (x div 4) # b64char ((x mod 4) * 16 + y div 16)
        # b64char ((y mod 16) * 4 + z div 64) # b64char (z mod 64) # base64_encode rest)"

text \<open>The values of the legal characters before the first \<open>=\<close>.\<close>

definition base64_legal :: "string \<Rightarrow> nat list" where
  "base64_legal s = List.map_filter unbase64 (takeWhile (\<lambda>c. c \<noteq> CHR ''='') s)"

fun base64_groups :: "nat list \<Rightarrow> string" where
  "base64_groups (a # b # c # d # rest) =
     char_of (a * 4 + b div 16) # char_of ((b mod 16) * 16 + c div 4)
       # char_of ((c mod 4) * 64 + d) # base64_groups rest"
| "base64_groups [a, b, c] = [char_of (a * 4 + b div 16), char_of ((b mod 16) * 16 + c div 4)]"
| "base64_groups [a, b] = [char_of (a * 4 + b div 16)]"
| "base64_groups _ = []"

definition base64_decode :: "string \<Rightarrow> string" where
  "base64_decode s = base64_groups (base64_legal s)"

definition encodeData :: "string \<Rightarrow> string" where
  "encodeData data = (if data = [] then [] else base64_encode data)"

text \<open>
  \<open>decodeData\<close> wraps the decoding in \<open>try\<close>/\<open>catch\<close> and returns the empty string from
  the handler; Node's decoder does not raise, so the handler is never entered.
\<close>

definition decodeData :: "string \<Rightarrow> string" where
  "decodeData encodedData = (if encodedData = [] then [] else base64_decode encodedData)"

subsection \<open>The export document\<close>

text \<open>
  The document is the parsed JSON. A section or list the import tests for presence is an
  \<open>option\<close>, a string property it tests or copies into an account is missing, \<open>null\<close>
  or a string; the others have the type \<open>exportSettings\<close> writes. \<open>dp_type\<close> is the
  string the import compares with \<open>'claude_official'\<close> and \<open>'third_party'\<close>.
\<close>

record DocProxyAuth =
  doc_username :: JsString
  doc_password :: JsString

record DocProxyConfig =
  doc_enabled :: bool
  doc_url :: string
  doc_auth :: "DocProxyAuth option"

record DocProvider =
  dp_id :: string
  dp_type :: string
  dp_name :: JsString
  dp_useProxy :: bool
  dp_activeAccountId :: JsString
  dp_accounts :: "Account list option"

record DocSettings =
  doc_proxyConfig :: "DocProxyConfig option"
  doc_terminal :: "PartialTerminal option"
  doc_projectFilter :: "PartialProjectFilter option"
  doc_serviceProviders :: "DocProvider list option"

record ExportData =
  version :: JsString
  timestamp :: string
  includeSensitiveData :: "bool option"
  settings :: "DocSettings option"

subsection \<open>Export\<close>

definition providerTypeString :: "ProviderType \<Rightarrow> string" where
  "providerTypeString t =
     (case t of claude_official \<Rightarrow> ''claude_official'' | third_party \<Rightarrow> ''third_party'')"

definition encodeSensitive :: "bool \<Rightarrow> JsString \<Rightarrow> JsString" where
  "encodeSensitive includeSensitive v =
     (case v of
        Str x \<Rightarrow> if includeSensitive \<and> x \<noteq> [] then Str (encodeData x) else Undefined
      | _ \<Rightarrow> Undefined)"

definition exportClaudeAccount :: "bool \<Rightarrow> Account \<Rightarrow> Account" where
  "exportClaudeAccount includeSensitive account =
     \<lparr> accountUuid = accountUuid account,
       emailAddress = emailAddress account,
       organizationUuid = organizationUuid account,
       organizationRole = organizationRole account,
       workspaceRole = workspaceRole account,
       organizationName = organizationName account,
       authorization = encodeSensitive includeSensitive (authorization account),
       acc_id = Undefined, acc_name = Undefined, apiKey = Undefined, baseUrl = Undefined, description = Undefined \<rparr>"

definition exportThirdPartyAccount :: "bool \<Rightarrow> Account \<Rightarrow> Account" where
  "exportThirdPartyAccount includeSensitive account =
     \<lparr> accountUuid = Undefined, emailAddress = Undefined, organizationUuid = Undefined,
       organizationRole = Undefined, workspaceRole = Undefined, organizationName = Undefined,
       authorization = Undefined,
       acc_id = acc_id account,
       acc_name = acc_name account,
       apiKey = encodeSensitive includeSensitive (apiKey account),
       baseUrl = baseUrl account,
       description = description account \<rparr>"

definition exportProvider :: "bool \<Rightarrow> ServiceProvider \<Rightarrow> DocProvider" where
  "exportProvider includeSensitive provider =
     \<lparr> dp_id = prov_id provider,
       dp_type = providerTypeString (prov_type provider),
       dp_name = prov_name provider,
       dp_useProxy = useProxy provider,
       dp_activeAccountId = activeAccountId provider,
       dp_accounts = Some
         (if prov_type provider = claude_official
          then map (exportClaudeAccount includeSensitive) (accounts provider)
          else map (exportThirdPartyAccount includeSensitive) (accounts provider)) \<rparr>"

text \<open>
  The document \<open>exportSettings\<close> writes; \<open>now\<close> is \<open>new Date().toISOString()\<close>. Writing
  the file is outside the model.
\<close>

definition exportSettings :: "string \<Rightarrow> bool \<Rightarrow> AppSettings \<Rightarrow> ExportData" where
  "exportSettings now includeSensitive s =
     \<lparr> version = Str ''1.0.0'',
       timestamp = now,
       includeSensitiveData = Some includeSensitive,
       settings = Some
         \<lparr> doc_proxyConfig = Some
             \<lparr> doc_enabled = enabled (proxyConfig s),
               doc_url = url (proxyConfig s),
               doc_auth =
                 (case auth (proxyConfig s) of
                    Some a \<Rightarrow>
                      if includeSensitive
                      then Some \<lparr> doc_username = Str (encodeData (username a)),
                                  doc_password = Str (encodeData (password a)) \<rparr>
                      else None
                  | None \<Rightarrow> None) \<rparr>,
           doc_terminal = Some
             \<lparr> pt_fontSize = Some (fontSize (terminal s)),
               pt_fontFamily = Some (fontFamily (terminal s)),
               pt_theme = Some (theme (terminal s)),
               pt_skipPermissions = Some (skipPermissions (terminal s)) \<rparr>,
           doc_projectFilter = Some
             \<lparr> pf_hiddenDirectories = Some (hiddenDirectories (projectFilter s)) \<rparr>,
           doc_serviceProviders = Some
             (map (exportProvider includeSensitive) (serviceProviders s)) \<rparr> \<rparr>"

subsection \<open>Import\<close>

text \<open>
  \<open>InvalidFormat\<close> is the message of the format check, \<open>Raised\<close> the message of an
  exception caught by the handler of \<open>importSettings\<close>. The labels of \<open>imported\<close> are
  the sections applied: the proxy section (with the note on credentials when the document
  carries sensitive data), the terminal section, the project filter, and the accounts
  with their number and, when positive, the number of accounts with sensitive data.
\<close>

datatype ImportError = InvalidFormat | Raised string

datatype ImportedLabel =
    ProxyLabel bool
  | TerminalLabel
  | ProjectFilterLabel
  | AccountsLabel nat "nat option"

record ImportResult =
  success :: bool
  error :: "ImportError option"
  imported :: "ImportedLabel list option"

text \<open>What reading and parsing the file gives: an exception, or the parsed document.\<close>

datatype FileContent = Unreadable string | Parsed ExportData

definition decodeSensitive :: "bool \<Rightarrow> JsString \<Rightarrow> JsString" where
  "decodeSensitive hasSensitiveData v =
     (case v of
        Str x \<Rightarrow> if hasSensitiveData \<and> x \<noteq> [] then Str (decodeData x) else Undefined
      | _ \<Rightarrow> Undefined)"

definition importClaudeAccount :: "bool \<Rightarrow> Account \<Rightarrow> Account" where
  "importClaudeAccount hasSensitiveData account =
     \<lparr> accountUuid = accountUuid account,
       emailAddress = emailAddress account,
       organizationUuid = organizationUuid account,
       organizationRole = organizationRole account,
       workspaceRole = workspaceRole account,
       organizationName = organizationName account,
       authorization = decodeSensitive hasSensitiveData (authorization account),
       acc_id = Undefined, acc_name = Undefined, apiKey = Undefined, baseUrl = Undefined, description = Undefined \<rparr>"

definition validThirdPartyEntry :: "Account \<Rightarrow> bool" where
  "validThirdPartyEntry account \<longleftrightarrow>
     truthy (acc_id account) \<and> truthy (acc_name account) \<and> truthy (baseUrl account)"

definition importThirdPartyAccount :: "bool \<Rightarrow> Account \<Rightarrow> Account" where
  "importThirdPartyAccount hasSensitiveData account =
     \<lparr> accountUuid = Undefined, emailAddress = Undefined, organizationUuid = Undefined,
       organizationRole = Undefined, workspaceRole = Undefined, organizationName = Undefined,
       authorization = Undefined,
       acc_id = acc_id account,
       acc_name = acc_name account,
       apiKey = Str (case decodeSensitive hasSensitiveData (apiKey account) of
                       Str k \<Rightarrow> k | _ \<Rightarrow> []),
       baseUrl = baseUrl account,
       description = js_or (description account) (Str []) \<rparr>"

text \<open>
  The state of the provider loop: the settings, \<open>importedAccountsCount\<close> and
  \<open>importedSensitiveCount\<close>.
\<close>

type_synonym ImportState = "AppSettings \<times> nat \<times> nat"

definition importThirdPartyEntry ::
  "bool \<Rightarrow> string \<Rightarrow> ImportState \<Rightarrow> Account \<Rightarrow> ImportState" where
  "importThirdPartyEntry hasSensitiveData providerId st account =
     (case st of (s, accountsCount, sensitiveCount) \<Rightarrow>
        if validThirdPartyEntry account
        then (addThirdPartyAccount providerId
                (importThirdPartyAccount hasSensitiveData account) s,
              accountsCount + 1,
              (if hasSensitiveData \<and> truthy (apiKey account)
               then sensitiveCount + 1 else sensitiveCount))
        else st)"

definition importProvider :: "bool \<Rightarrow> ImportState \<Rightarrow> DocProvider \<Rightarrow> ImportState" where
  "importProvider hasSensitiveData st importedProvider =
     (case st of (s, accountsCount, sensitiveCount) \<Rightarrow>
        (case dp_accounts importedProvider of
           None \<Rightarrow> st
         | Some accs \<Rightarrow>
             if dp_type importedProvider = ''claude_official''
             then (let claudeAccounts = map (importClaudeAccount hasSensitiveData) accs in
                   (updateClaudeAccounts claudeAccounts s,
                    accountsCount + length claudeAccounts,
                    (if hasSensitiveData
                     then sensitiveCount
                            + length (filter (\<lambda>acc. truthy (authorization acc)) claudeAccounts)
                     else sensitiveCount)))
             else if dp_type importedProvider = ''third_party''
             then foldl (importThirdPartyEntry hasSensitiveData (dp_id importedProvider)) st accs
             else st))"

definition importProxyConfig :: "bool \<Rightarrow> DocProxyConfig \<Rightarrow> AppSettings \<Rightarrow> AppSettings" where
  "importProxyConfig hasSensitiveData pc s =
     updateProxyConfig
       \<lparr> pp_enabled = Some (doc_enabled pc),
         pp_url = Some (doc_url pc),
         pp_auth =
           (case doc_auth pc of
              Some a \<Rightarrow>
                if hasSensitiveData
                then Some \<lparr> username = decodeData (case js_or (doc_username a) (Str []) of
                                                     Str u \<Rightarrow> u | _ \<Rightarrow> []),
                            password = decodeData (case js_or (doc_password a) (Str []) of
                                                     Str u \<Rightarrow> u | _ \<Rightarrow> []) \<rparr>
                else None
            | None \<Rightarrow> None) \<rparr> s"

text \<open>
  The four sections of \<open>importSettings\<close>, each on the settings and the list \<open>imported\<close>
  built so far (\<open>labels\<close>).
\<close>

type_synonym ImportProgress = "AppSettings \<times> ImportedLabel list"

definition importProxySection :: "bool \<Rightarrow> DocSettings \<Rightarrow> ImportProgress \<Rightarrow> ImportProgress" where
  "importProxySection hasSensitiveData importSettings pr =
     (case pr of (s, labels) \<Rightarrow>
        (case doc_proxyConfig importSettings of
           Some pc \<Rightarrow>
             (importProxyConfig hasSensitiveData pc s, labels @ [ProxyLabel hasSensitiveData])
         | None \<Rightarrow> pr))"

definition importTerminalSection :: "DocSettings \<Rightarrow> ImportProgress \<Rightarrow> ImportProgress" where
  "importTerminalSection importSettings pr =
     (case pr of (s, labels) \<Rightarrow>
        (case doc_terminal importSettings of
           Some t \<Rightarrow> (updateTerminalConfig t s, labels @ [TerminalLabel])
         | None \<Rightarrow> pr))"

definition importProjectFilterSection :: "DocSettings \<Rightarrow> ImportProgress \<Rightarrow> ImportProgress" where
  "importProjectFilterSection importSettings pr =
     (case pr of (s, labels) \<Rightarrow>
        (case doc_projectFilter importSettings of
           Some f \<Rightarrow> (updateProjectFilterConfig f s, labels @ [ProjectFilterLabel])
         | None \<Rightarrow> pr))"

definition importProvidersSection :: "bool \<Rightarrow> DocSettings \<Rightarrow> ImportProgress \<Rightarrow> ImportProgress" where
  "importProvidersSection hasSensitiveData importSettings pr =
     (case pr of (s, labels) \<Rightarrow>
        (case doc_serviceProviders importSettings of
           Some importedProviders \<Rightarrow>
             (case foldl (importProvider hasSensitiveData) (s, 0, 0) importedProviders of
                (s', importedAccountsCount, importedSensitiveCount) \<Rightarrow>
                  (s',
                   if importedAccountsCount > 0
                   then labels @ [AccountsLabel importedAccountsCount
                                      (if hasSensitiveData \<and> importedSensitiveCount > 0
                                       then Some importedSensitiveCount else None)]
                   else labels))
         | None \<Rightarrow> pr))"

definition importDocument :: "bool \<Rightarrow> DocSettings \<Rightarrow> AppSettings \<Rightarrow> ImportResult \<times> AppSettings" where
  "importDocument hasSensitiveData importSettings s =
     (case importProvidersSection hasSensitiveData importSettings
             (importProjectFilterSection importSettings
                (importTerminalSection importSettings
                   (importProxySection hasSensitiveData importSettings (s, [])))) of
        (s', labels) \<Rightarrow> (\<lparr> success = True, error = None, imported = Some labels \<rparr>, s'))"

definition importSettings :: "FileContent \<Rightarrow> AppSettings \<Rightarrow> ImportResult \<times> AppSettings" where
  "importSettings content s =
     (case content of
        Unreadable message \<Rightarrow>
          (\<lparr> success = False, error = Some (Raised message), imported = None \<rparr>, s)
      | Parsed importData \<Rightarrow>
          (case settings importData of
             None \<Rightarrow> (\<lparr> success = False, error = Some InvalidFormat, imported = None \<rparr>, s)
           | Some importSettings \<Rightarrow>
               if \<not> truthy (version importData)
               then (\<lparr> success = False, error = Some InvalidFormat, imported = None \<rparr>, s)
               else importDocument (includeSensitiveData importData = Some True)
                      importSettings s))"

subsection \<open>Replace the first match or append\<close>

text \<open>
  The code finds an index with \<open>findIndex\<close> and then assigns at the index or pushes.
  \<open>upsertWith\<close> is the same operation by recursion on the list, for the proofs.
\<close>

fun upsertWith :: "('a \<Rightarrow> bool) \<Rightarrow> ('a \<Rightarrow> 'a) \<Rightarrow> 'a \<Rightarrow> 'a list \<Rightarrow> 'a list" where
  "upsertWith P f y [] = [y]"
| "upsertWith P f y (x # xs) = (if P x then f x # xs else x # upsertWith P f y xs)"

subsection \<open>A document without its invalid third-party entries\<close>

text \<open>
  For the statement on skipped entries: the document with the entries of its third-party
  providers that fail the check of the import removed, and the number of entries of a
  provider that the import counts.
\<close>

definition withoutInvalidEntries :: "DocProvider \<Rightarrow> DocProvider" where
  "withoutInvalidEntries dp =
     (if dp_type dp = ''third_party''
      then dp\<lparr>dp_accounts := map_option (filter validThirdPartyEntry) (dp_accounts dp)\<rparr>
      else dp)"

definition withoutInvalidThirdParty :: "ExportData \<Rightarrow> ExportData" where
  "withoutInvalidThirdParty d =
     d\<lparr>settings :=
         map_option
           (\<lambda>st. st\<lparr>doc_serviceProviders :=
                      map_option (map withoutInvalidEntries) (doc_serviceProviders st)\<rparr>)
           (settings d)\<rparr>"

definition countedEntries :: "DocProvider \<Rightarrow> nat" where
  "countedEntries dp =
     (case dp_accounts dp of
        None \<Rightarrow> 0
      | Some accs \<Rightarrow>
          if dp_type dp = ''claude_official'' then length accs
          else if dp_type dp = ''third_party'' then length (filter validThirdPartyEntry accs)
          else 0)"

subsection \<open>The active key of a provider\<close>

text \<open>
  The property of the active key: it is falsy (missing, \<open>null\<close> or empty), or it is
  the natural key of an account of the provider, by the key \<open>getCurrentActiveAccount\<close>
  uses for the type of the provider. The mutators are the methods that write the
  providers; a sequence of calls is a list of them.
\<close>

definition activeAccountOk :: "ServiceProvider \<Rightarrow> bool" where
  "activeAccountOk p \<longleftrightarrow>
     \<not> truthy (activeAccountId p) \<or>
     (\<exists>a \<in> set (accounts p). naturalKey (prov_type p) a = activeAccountId p)"

definition registryOk :: "AppSettings \<Rightarrow> bool" where
  "registryOk s \<longleftrightarrow> (\<forall>p \<in> set (serviceProviders s). activeAccountOk p)"

datatype Mutator =
    AddServiceProvider ServiceProvider
  | RemoveServiceProvider string
  | SetActiveProvider string
  | SetActiveServiceProvider string
  | SetActiveAccount string string
  | SetProviderProxyUsage string bool
  | UpdateClaudeAccounts "Account list"
  | UpdateClaudeAccountAuthorization string string
  | AddThirdPartyAccount string Account
  | RemoveThirdPartyAccount string string

fun applyMutator :: "Mutator \<Rightarrow> AppSettings \<Rightarrow> AppSettings" where
  "applyMutator (AddServiceProvider p) s = addServiceProvider p s"
| "applyMutator (RemoveServiceProvider pid) s = removeServiceProvider pid s"
| "applyMutator (SetActiveProvider pid) s = setActiveProvider pid s"
| "applyMutator (SetActiveServiceProvider pid) s = setActiveServiceProvider pid s"
| "applyMutator (SetActiveAccount pid k) s = setActiveAccount pid k s"
| "applyMutator (SetProviderProxyUsage pid b) s = setProviderProxyUsage pid b s"
| "applyMutator (UpdateClaudeAccounts accs) s = updateClaudeAccounts accs s"
| "applyMutator (UpdateClaudeAccountAuthorization email token) s =
     updateClaudeAccountAuthorization email token s"
| "applyMutator (AddThirdPartyAccount pid a) s = addThirdPartyAccount pid a s"
| "applyMutator (RemoveThirdPartyAccount pid k) s = removeThirdPartyAccount pid k s"

fun runMutators :: "Mutator list \<Rightarrow> AppSettings \<Rightarrow> AppSettings" where
  "runMutators [] s = s"
| "runMutators (m # ms) s = runMutators ms (applyMutator m s)"

text \<open>
  The calls that keep the active key: a provider added as a whole has a good key itself,
  \<open>setActiveAccount\<close> names no account or one of the provider, and the two calls on
  third-party accounts meet a provider of the third-party type under the \<open>id\<close> (or,
  for the upsert, none).
\<close>

definition providerById :: "string \<Rightarrow> AppSettings \<Rightarrow> ServiceProvider option" where
  "providerById pid s = find (\<lambda>p. prov_id p = pid) (getServiceProviders s)"

fun keepsActiveKey :: "AppSettings \<Rightarrow> Mutator \<Rightarrow> bool" where
  "keepsActiveKey s (AddServiceProvider p) = activeAccountOk p"
| "keepsActiveKey s (SetActiveAccount pid k) =
     (case providerById pid s of
        None \<Rightarrow> True
      | Some p \<Rightarrow> k = [] \<or> (\<exists>a \<in> set (accounts p). naturalKey (prov_type p) a = Str k))"
| "keepsActiveKey s (AddThirdPartyAccount pid a) =
     (case providerById pid s of None \<Rightarrow> True | Some p \<Rightarrow> prov_type p = third_party)"
| "keepsActiveKey s (RemoveThirdPartyAccount pid k) =
     (case providerById pid s of None \<Rightarrow> True | Some p \<Rightarrow> prov_type p = third_party)"
| "keepsActiveKey s _ = True"

fun allKeepActiveKey :: "AppSettings \<Rightarrow> Mutator list \<Rightarrow> bool" where
  "allKeepActiveKey s [] = True"
| "allKeepActiveKey s (m # ms) = (keepsActiveKey s m \<and> allKeepActiveKey (applyMutator m s) ms)"

subsection \<open>A stored account under an imported entry\<close>




text \<open>The provider that \<open>addThirdPartyAccount\<close> works on: the one found, or a new one.\<close>

definition tpProvider :: "string \<Rightarrow> Account \<Rightarrow> AppSettings \<Rightarrow> ServiceProvider" where
  "tpProvider pid a s =
     (case providerById pid s of
        Some p \<Rightarrow> p
      | None \<Rightarrow> \<lparr> prov_id = pid, prov_type = third_party, prov_name = acc_name a,
                  accounts = [], activeAccountId = Str [], useProxy = True \<rparr>)"



subsection \<open>The calls of the provider section\<close>

text \<open>
  For the statement on the entries of a document. \<open>storedAs pid a\<close>: the provider found
  by the \<open>id\<close> \<open>pid\<close> holds \<open>a\<close> as its first account with the \<open>id\<close> of \<open>a\<close>.
  \<open>lastValidEntry k accs\<close>: the last entry of \<open>accs\<close> with the \<open>id\<close> \<open>k\<close> that passes
  the check of the import. \<open>importCalls\<close>: the calls on the registry that the
  specification expects of the provider section, in the order of the document:
  \<open>updateClaudeAccounts\<close> with the accounts of an official entry, \<open>addThirdPartyAccount\<close>
  with the account of each valid entry of a third-party entry, nothing for an invalid
  entry. \<open>beforeProviders\<close>: the settings and the labels when the provider section starts.
\<close>

definition storedAs :: "string \<Rightarrow> Account \<Rightarrow> AppSettings \<Rightarrow> bool" where
  "storedAs pid a s =
     (case providerById pid s of
        None \<Rightarrow> False
      | Some p \<Rightarrow>
          (case findIndex (\<lambda>x. acc_id x = acc_id a) (accounts p) of
             None \<Rightarrow> False
           | Some i \<Rightarrow> accounts p ! i = a))"

definition lastValidEntry :: "JsString \<Rightarrow> Account list \<Rightarrow> Account" where
  "lastValidEntry k accs = last (filter (\<lambda>e. validThirdPartyEntry e \<and> acc_id e = k) accs)"

definition entryCalls :: "bool \<Rightarrow> string \<Rightarrow> Account list \<Rightarrow> Mutator list" where
  "entryCalls hasSensitiveData providerId accs =
     map (\<lambda>e. AddThirdPartyAccount providerId (importThirdPartyAccount hasSensitiveData e))
       (filter validThirdPartyEntry accs)"

definition providerCalls :: "bool \<Rightarrow> DocProvider \<Rightarrow> Mutator list" where
  "providerCalls hasSensitiveData dp =
     (case dp_accounts dp of
        None \<Rightarrow> []
      | Some accs \<Rightarrow>
          if dp_type dp = ''claude_official''
          then [UpdateClaudeAccounts (map (importClaudeAccount hasSensitiveData) accs)]
          else if dp_type dp = ''third_party''
          then entryCalls hasSensitiveData (dp_id dp) accs
          else [])"

definition importCalls :: "bool \<Rightarrow> DocProvider list \<Rightarrow> Mutator list" where
  "importCalls hasSensitiveData ps = concat (map (providerCalls hasSensitiveData) ps)"

definition beforeProviders :: "bool \<Rightarrow> DocSettings \<Rightarrow> AppSettings \<Rightarrow> ImportProgress" where
  "beforeProviders hasSensitiveData ds s =
     importProjectFilterSection ds
       (importTerminalSection ds (importProxySection hasSensitiveData ds (s, [])))"

subsection \<open>Export followed by import\<close>

text \<open>
  For the statement on the round trip. A string of the model is well-formed when its bytes
  are UTF-8 (RFC 3629: no overlong form, no surrogate, nothing above U+10FFFF); these are
  the strings on which \<open>toString('utf-8')\<close> gives back the bytes it is given.
\<close>

definition utf8Continuation :: "char \<Rightarrow> bool" where
  "utf8Continuation c \<longleftrightarrow> 128 \<le> (of_char c :: nat) \<and> (of_char c :: nat) \<le> 191"

fun wellFormedUtf8 :: "string \<Rightarrow> bool" where
  "wellFormedUtf8 [] = True"
| "wellFormedUtf8 (a # s) =
     (let x = (of_char a :: nat) in
      if x < 128 then wellFormedUtf8 s
      else if 194 \<le> x \<and> x \<le> 223
      then (case s of
              b # r \<Rightarrow> utf8Continuation b \<and> wellFormedUtf8 r
            | _ \<Rightarrow> False)
      else if 224 \<le> x \<and> x \<le> 239
      then (case s of
              b # c # r \<Rightarrow>
                (if x = 224 then 160 \<le> (of_char b :: nat) \<and> (of_char b :: nat) \<le> 191
                 else if x = 237 then 128 \<le> (of_char b :: nat) \<and> (of_char b :: nat) \<le> 159
                 else utf8Continuation b) \<and>
                utf8Continuation c \<and> wellFormedUtf8 r
            | _ \<Rightarrow> False)
      else if 240 \<le> x \<and> x \<le> 244
      then (case s of
              b # c # d # r \<Rightarrow>
                (if x = 240 then 144 \<le> (of_char b :: nat) \<and> (of_char b :: nat) \<le> 191
                 else if x = 244 then 128 \<le> (of_char b :: nat) \<and> (of_char b :: nat) \<le> 143
                 else utf8Continuation b) \<and>
                utf8Continuation c \<and> utf8Continuation d \<and> wellFormedUtf8 r
            | _ \<Rightarrow> False)
      else False)"

text \<open>
  The registries of the statement. An account of a provider of the official type has the
  properties of \<open>ClaudeAccount\<close> only, one of a third-party provider those of
  \<open>ThirdPartyAccount\<close> only, with \<open>id\<close>, \<open>name\<close> and \<open>baseUrl\<close> non-empty and a
  string as \<open>apiKey\<close>; the tokens and keys are well-formed strings. The accounts of a
  provider differ in their natural keys, the providers in their \<open>id\<close>, and a provider of
  the official type has the \<open>id\<close> \<open>claude_official\<close>.
\<close>

definition wellFormedSecret :: "JsString \<Rightarrow> bool" where
  "wellFormedSecret v = (case v of Str x \<Rightarrow> wellFormedUtf8 x | _ \<Rightarrow> True)"

definition claudeShaped :: "Account \<Rightarrow> bool" where
  "claudeShaped a \<longleftrightarrow>
     acc_id a = Undefined \<and> acc_name a = Undefined \<and> apiKey a = Undefined \<and>
     baseUrl a = Undefined \<and> description a = Undefined \<and> wellFormedSecret (authorization a)"

definition thirdPartyShaped :: "Account \<Rightarrow> bool" where
  "thirdPartyShaped a \<longleftrightarrow>
     accountUuid a = Undefined \<and> emailAddress a = Undefined \<and> organizationUuid a = Undefined \<and>
     organizationRole a = Undefined \<and> workspaceRole a = Undefined \<and>
     organizationName a = Undefined \<and> authorization a = Undefined \<and>
     truthy (acc_id a) \<and> truthy (acc_name a) \<and> truthy (baseUrl a) \<and>
     (case apiKey a of Str k \<Rightarrow> wellFormedUtf8 k | _ \<Rightarrow> False)"

definition wellFormedProvider :: "ServiceProvider \<Rightarrow> bool" where
  "wellFormedProvider p \<longleftrightarrow>
     (case prov_type p of
        claude_official \<Rightarrow>
          prov_id p = ''claude_official'' \<and> list_all claudeShaped (accounts p) \<and>
          distinct (map emailAddress (accounts p))
      | third_party \<Rightarrow>
          list_all thirdPartyShaped (accounts p) \<and> distinct (map acc_id (accounts p)))"

definition wellFormedRegistry :: "AppSettings \<Rightarrow> bool" where
  "wellFormedRegistry s \<longleftrightarrow>
     distinct (map prov_id (serviceProviders s)) \<and>
     list_all wellFormedProvider (serviceProviders s)"

text \<open>
  What comes back. An official account comes back with its \<open>authorization\<close> when that is
  a non-empty string, and without one otherwise; a third-party account comes back with
  the empty string as \<open>description\<close> when it had none. A third-party provider without
  accounts does not come back. \<open>roundTrip\<close> is the export with sensitive data followed
  by the import of the document into the default settings.
\<close>

definition restoredAccount :: "ProviderType \<Rightarrow> Account \<Rightarrow> Account" where
  "restoredAccount t a =
     (case t of
        claude_official \<Rightarrow>
          a\<lparr>authorization := (if truthy (authorization a) then authorization a else Undefined)\<rparr>
      | third_party \<Rightarrow> a\<lparr>description := js_or (description a) (Str [])\<rparr>)"

definition restoredAccounts :: "ServiceProvider \<Rightarrow> Account list" where
  "restoredAccounts p = map (restoredAccount (prov_type p)) (accounts p)"

definition restoredProviders :: "ServiceProvider list \<Rightarrow> (string \<times> ProviderType \<times> Account list) list" where
  "restoredProviders ps =
     map (\<lambda>p. (prov_id p, prov_type p, restoredAccounts p))
       (filter (\<lambda>p. prov_type p = claude_official \<or> accounts p \<noteq> []) ps)"

definition roundTrip :: "string \<Rightarrow> AppSettings \<Rightarrow> AppSettings" where
  "roundTrip now s = snd (importSettings (Parsed (exportSettings now True s)) defaultSettings)"

section \<open>Properties\<close>

subsection \<open>Lists\<close>

lemma findIndex_upsertWith:
  "(case findIndex P xs of Some i \<Rightarrow> xs[i := f (xs ! i)] | None \<Rightarrow> xs @ [y]) = upsertWith P f y xs"
  by (induction xs) (auto split: option.splits)

lemma findIndex_Some_iff:
  "findIndex P xs = Some i \<longleftrightarrow> i < length xs \<and> P (xs ! i) \<and> (\<forall>j < i. \<not> P (xs ! j))"
proof (induction xs arbitrary: i)
  case Nil
  show ?case by simp
next
  case (Cons x xs)
  show ?case
  proof (cases "P x")
    case True
    then show ?thesis by (cases i) auto
  next
    case False
    show ?thesis
    proof (cases i)
      case 0
      then show ?thesis using False by auto
    next
      case (Suc k)
      have "(\<forall>j<Suc k. \<not> P ((x # xs) ! j)) \<longleftrightarrow> (\<forall>j<k. \<not> P (xs ! j))"
        using False by (auto simp: less_Suc_eq_0_disj)
      then show ?thesis using False Suc Cons.IH[of k] by auto
    qed
  qed
qed

lemma findIndex_None_iff: "findIndex P xs = None \<longleftrightarrow> (\<forall>x \<in> set xs. \<not> P x)"
  by (induction xs) auto

lemma find_findIndex: "find P xs = map_option (\<lambda>i. xs ! i) (findIndex P xs)"
  by (induction xs) (auto simp: option.map_comp comp_def)

lemma find_Some_holds: "find P xs = Some x \<Longrightarrow> P x"
  by (induction xs) (auto split: if_splits)

lemma find_upsert_first:
  "Q q \<Longrightarrow> (case find Q ps of Some p \<Rightarrow> P p | None \<Rightarrow> True) \<Longrightarrow>
     find Q (upsertWith P (\<lambda>_. q) q ps) = Some q"
  by (induction ps) (simp_all split: if_splits)

lemma set_upsert_const: "set (upsertWith P (\<lambda>_. q) q ps) \<subseteq> insert q (set ps)"
  by (induction ps) auto

subsection \<open>Providers\<close>

lemma serviceProviders_addServiceProvider:
  "serviceProviders (addServiceProvider q s)
     = upsertWith (\<lambda>p. prov_id p = prov_id q) (\<lambda>_. q) q (serviceProviders s)"
  using findIndex_upsertWith[where P="\<lambda>p. prov_id p = prov_id q" and xs="serviceProviders s"
      and f="\<lambda>_. q" and y=q]
  by (simp add: addServiceProvider_def getServiceProviders_def Let_def split: option.splits)

lemma other_addServiceProvider:
  "proxyConfig (addServiceProvider q s) = proxyConfig s"
  "apiProviders (addServiceProvider q s) = apiProviders s"
  "activeProviderId (addServiceProvider q s) = activeProviderId s"
  "activeServiceProviderId (addServiceProvider q s) = activeServiceProviderId s"
  "terminal (addServiceProvider q s) = terminal s"
  "projectFilter (addServiceProvider q s) = projectFilter s"
  by (simp_all add: addServiceProvider_def Let_def split: option.splits)

lemma find_id_upsert:
  "find (\<lambda>p. prov_id p = prov_id q) (upsertWith (\<lambda>p. prov_id p = prov_id q) (\<lambda>_. q) q ps) = Some q"
  by (induction ps) auto

lemma find_other_id_upsert:
  "pid \<noteq> prov_id q \<Longrightarrow>
   find (\<lambda>p. prov_id p = pid) (upsertWith (\<lambda>p. prov_id p = prov_id q) (\<lambda>_. q) q ps)
     = find (\<lambda>p. prov_id p = pid) ps"
  by (induction ps) auto

lemma claudeProviderOrNew_type: "prov_type (claudeProviderOrNew s) = claude_official"
  by (auto simp: claudeProviderOrNew_def findClaudeProvider_def newClaudeProvider_def
      split: option.splits dest: find_Some_holds)

text \<open>
  After \<open>updateClaudeAccounts\<close> the first provider of the official type is the one it
  wrote, also when the provider replaced under its \<open>id\<close> was a different one.
\<close>

lemma findClaudeProvider_updateClaudeAccounts:
  "findClaudeProvider (updateClaudeAccounts accs s) =
     Some ((claudeProviderOrNew s)
        \<lparr>accounts := foldl mergeAccount (accounts (claudeProviderOrNew s)) accs,
         activeAccountId :=
           (if find (\<lambda>acc. emailAddress acc = activeAccountId (claudeProviderOrNew s)) accs = None
            then (case accs of [] \<Rightarrow> Str [] | first # _ \<Rightarrow> emailAddress first)
            else activeAccountId (claudeProviderOrNew s))\<rparr>)"
proof -
  let ?P = "claudeProviderOrNew s"
  let ?q = "?P\<lparr>accounts := foldl mergeAccount (accounts ?P) accs,
         activeAccountId :=
           (if find (\<lambda>acc. emailAddress acc = activeAccountId ?P) accs = None
            then (case accs of [] \<Rightarrow> Str [] | first # _ \<Rightarrow> emailAddress first)
            else activeAccountId ?P)\<rparr>"
  have u: "updateClaudeAccounts accs s = addServiceProvider ?q s"
    by (simp add: updateClaudeAccounts_def Let_def)
  have t: "prov_type ?q = claude_official" by (simp add: claudeProviderOrNew_type)
  have i: "case find (\<lambda>p. prov_type p = claude_official) (serviceProviders s) of
             Some p \<Rightarrow> prov_id p = prov_id ?q | None \<Rightarrow> True"
    by (simp add: claudeProviderOrNew_def findClaudeProvider_def getServiceProviders_def
        split: option.splits)
  show ?thesis
    unfolding u findClaudeProvider_def getServiceProviders_def serviceProviders_addServiceProvider
    by (rule find_upsert_first[where Q="\<lambda>p. prov_type p = claude_official", OF t i])
qed

subsection \<open>Merging accounts\<close>

lemma mergeAccount_upsertWith:
  "mergeAccount xs a =
     upsertWith (\<lambda>e. emailAddress e = emailAddress a)
       (\<lambda>e. a\<lparr>authorization := js_or (authorization e) (authorization a)\<rparr>) a xs"
  unfolding mergeAccount_def
  by (rule findIndex_upsertWith)

lemma mergeAccount_Nil: "mergeAccount [] a = [a]"
  by (simp add: mergeAccount_upsertWith)

lemma mergeAccount_Cons:
  "mergeAccount (x # xs) a =
     (if emailAddress x = emailAddress a
      then a\<lparr>authorization := js_or (authorization x) (authorization a)\<rparr> # xs
      else x # mergeAccount xs a)"
  by (simp add: mergeAccount_upsertWith)

lemma length_mergeAccount: "length xs \<le> length (mergeAccount xs a)"
  by (induction xs) (simp_all add: mergeAccount_Nil mergeAccount_Cons)

lemma nth_mergeAccount:
  "i < length xs \<Longrightarrow>
     emailAddress (mergeAccount xs a ! i) = emailAddress (xs ! i) \<and>
     (emailAddress (xs ! i) \<noteq> emailAddress a \<longrightarrow> mergeAccount xs a ! i = xs ! i)"
proof (induction xs arbitrary: i)
  case Nil
  then show ?case by simp
next
  case (Cons x xs)
  show ?case
  proof (cases i)
    case 0
    then show ?thesis by (simp add: mergeAccount_Cons)
  next
    case (Suc k)
    then show ?thesis using Cons.IH[of k] Cons.prems by (simp add: mergeAccount_Cons)
  qed
qed

lemma nth_mergeAccount_match:
  "findIndex (\<lambda>e. emailAddress e = emailAddress a) xs = Some i \<Longrightarrow>
     mergeAccount xs a ! i = a\<lparr>authorization := js_or (authorization (xs ! i)) (authorization a)\<rparr>"
proof -
  assume a: "findIndex (\<lambda>e. emailAddress e = emailAddress a) xs = Some i"
  then have "i < length xs" by (simp add: findIndex_Some_iff)
  then show ?thesis unfolding mergeAccount_def a by simp
qed

lemma findIndex_mergeAccount:
  "findIndex (\<lambda>e. emailAddress e = k) xs = Some i \<Longrightarrow>
     findIndex (\<lambda>e. emailAddress e = k) (mergeAccount xs a) = Some i"
proof (induction xs arbitrary: i)
  case Nil
  then show ?case by simp
next
  case (Cons x xs)
  then show ?case by (auto simp: mergeAccount_Cons split: if_splits)
qed

lemma set_mergeAccount_keeps:
  "x \<in> set xs \<Longrightarrow> emailAddress x \<noteq> emailAddress a \<Longrightarrow> x \<in> set (mergeAccount xs a)"
  by (induction xs) (auto simp: mergeAccount_Cons)

lemma set_mergeAccount_new:
  "\<exists>b \<in> set (mergeAccount xs a). emailAddress b = emailAddress a \<and> b\<lparr>authorization := authorization a\<rparr> = a"
  by (induction xs) (auto simp: mergeAccount_Nil mergeAccount_Cons)

lemma mergeAccount_fresh:
  "\<forall>x \<in> set xs. emailAddress x \<noteq> emailAddress a \<Longrightarrow> mergeAccount xs a = xs @ [a]"
  by (induction xs) (auto simp: mergeAccount_Nil mergeAccount_Cons)

lemma length_foldl_mergeAccount: "length xs \<le> length (foldl mergeAccount xs bs)"
proof (induction bs arbitrary: xs)
  case Nil
  show ?case by simp
next
  case (Cons b bs)
  show ?case using Cons.IH[of "mergeAccount xs b"] length_mergeAccount[of xs b] by simp
qed

lemma nth_foldl_mergeAccount:
  "i < length xs \<Longrightarrow>
     emailAddress (foldl mergeAccount xs bs ! i) = emailAddress (xs ! i) \<and>
     (emailAddress (xs ! i) \<notin> emailAddress ` set bs \<longrightarrow> foldl mergeAccount xs bs ! i = xs ! i)"
proof (induction bs arbitrary: xs)
  case Nil
  show ?case by simp
next
  case (Cons b bs)
  have i: "i < length (mergeAccount xs b)"
    using Cons.prems length_mergeAccount[of xs b] by simp
  show ?case
    using Cons.IH[OF i] nth_mergeAccount[OF Cons.prems, of b] by auto
qed

lemma foldl_mergeAccount_match:
  "filter (\<lambda>b. emailAddress b = emailAddress a) bs = [a] \<Longrightarrow>
   findIndex (\<lambda>e. emailAddress e = emailAddress a) xs = Some i \<Longrightarrow>
     foldl mergeAccount xs bs ! i
       = a\<lparr>authorization := js_or (authorization (xs ! i)) (authorization a)\<rparr>"
proof (induction bs arbitrary: xs)
  case Nil
  then show ?case by simp
next
  case (Cons b bs)
  have il: "i < length xs" and ie: "emailAddress (xs ! i) = emailAddress a"
    using Cons.prems(2) by (simp_all add: findIndex_Some_iff)
  show ?case
  proof (cases "emailAddress b = emailAddress a")
    case True
    with Cons.prems(1) have ba: "b = a" and none: "filter (\<lambda>b. emailAddress b = emailAddress a) bs = []"
      by simp_all
    from none have notin: "emailAddress a \<notin> emailAddress ` set bs"
      by (auto simp: filter_empty_conv)
    have i': "i < length (mergeAccount xs a)"
      using il length_mergeAccount[of xs a] by simp
    have m: "mergeAccount xs a ! i = a\<lparr>authorization := js_or (authorization (xs ! i)) (authorization a)\<rparr>"
      by (rule nth_mergeAccount_match[OF Cons.prems(2)])
    then have "emailAddress (mergeAccount xs a ! i) = emailAddress a" by simp
    then have "foldl mergeAccount (mergeAccount xs a) bs ! i = mergeAccount xs a ! i"
      using nth_foldl_mergeAccount[OF i', of bs] notin by simp
    then show ?thesis using ba m by simp
  next
    case False
    then have f: "filter (\<lambda>b. emailAddress b = emailAddress a) bs = [a]"
      using Cons.prems(1) by simp
    have idx: "findIndex (\<lambda>e. emailAddress e = emailAddress a) (mergeAccount xs b) = Some i"
      by (rule findIndex_mergeAccount[OF Cons.prems(2)])
    have same: "mergeAccount xs b ! i = xs ! i"
      using nth_mergeAccount[OF il, of b] ie False by simp
    show ?thesis using Cons.IH[OF f idx] same by simp
  qed
qed

subsection \<open>Encoding and decoding\<close>

lemma unbase64_b64char: "n < 64 \<Longrightarrow> unbase64 (b64char n) = Some n"
  unfolding unbase64_def b64char_def Let_def
  by (auto simp: take_bit_eq_mod)

lemma b64char_not_pad: "n < 64 \<Longrightarrow> b64char n \<noteq> CHR ''=''"
  using unbase64_b64char[of n] by (auto simp: unbase64_def)

lemma legal_cons: "n < 64 \<Longrightarrow> base64_legal (b64char n # s) = n # base64_legal s"
  by (simp add: base64_legal_def b64char_not_pad unbase64_b64char List.map_filter_simps)

lemma legal_pad: "base64_legal (CHR ''='' # s) = []"
  by (simp add: base64_legal_def List.map_filter_simps)

lemma legal_nil: "base64_legal [] = []"
  by (simp add: base64_legal_def List.map_filter_simps)

lemma sextets:
  fixes x y z :: nat
  assumes "x < 256" "y < 256" "z < 256"
  shows "x div 4 < 64" "x mod 4 * 16 + y div 16 < 64" "y mod 16 * 4 + z div 64 < 64"
    "z mod 64 < 64" "x mod 4 * 16 < 64" "y mod 16 * 4 < 64"
proof -
  have a: "x mod 4 < 4" "y mod 16 < 16" by simp_all
  have b: "y div 16 < 16" "z div 64 < 4" "x div 4 < 64"
    using assms by (simp_all add: div_less_iff_less_mult)
  show "x div 4 < 64" by (rule b)
  show "x mod 4 * 16 + y div 16 < 64" using a(1) b(1) by linarith
  show "y mod 16 * 4 + z div 64 < 64" using a(2) b(2) by linarith
  show "z mod 64 < 64" by simp
  show "x mod 4 * 16 < 64" using a(1) by linarith
  show "y mod 16 * 4 < 64" using a(2) by linarith
qed

lemma byte1: "y < 256 \<Longrightarrow> x div 4 * 4 + (x mod 4 * 16 + y div 16) div 16 = (x::nat)"
proof -
  assume "y < 256"
  then have "y div 16 < 16" by (simp add: div_less_iff_less_mult)
  then have "(x mod 4 * 16 + y div 16) div 16 = x mod 4" by simp
  then show ?thesis by simp
qed

lemma byte2: "y < 256 \<Longrightarrow> z < 256 \<Longrightarrow> (x mod 4 * 16 + y div 16) mod 16 * 16 + (y mod 16 * 4 + z div 64) div 4 = (y::nat)"
proof -
  assume "y < 256" "z < 256"
  then have b: "y div 16 < 16" "z div 64 < 4" by (simp_all add: div_less_iff_less_mult)
  have "(x mod 4 * 16 + y div 16) mod 16 = y div 16" using b(1) by simp
  moreover have "(y mod 16 * 4 + z div 64) div 4 = y mod 16" using b(2) by simp
  ultimately show ?thesis by simp
qed

lemma byte3: "z < 256 \<Longrightarrow> (y mod 16 * 4 + z div 64) mod 4 * 64 + z mod 64 = (z::nat)"
proof -
  assume "z < 256"
  then have b: "z div 64 < 4" by (simp add: div_less_iff_less_mult)
  have "(y mod 16 * 4 + z div 64) mod 4 = z div 64" using b by simp
  then show ?thesis by simp
qed

lemma group4:
  fixes a b c :: char
  defines "x \<equiv> (of_char a :: nat)" and "y \<equiv> (of_char b :: nat)" and "z \<equiv> (of_char c :: nat)"
  shows "base64_groups (x div 4 # (x mod 4 * 16 + y div 16) # (y mod 16 * 4 + z div 64) # z mod 64 # r)
     = a # b # c # base64_groups r"
proof -
  have b: "x < 256" "y < 256" "z < 256" by (simp_all add: x_def y_def z_def)
  have "char_of x = a" "char_of y = b" "char_of z = c" by (simp_all add: x_def y_def z_def)
  then show ?thesis
    using byte1[OF b(2)] byte2[OF b(2) b(3), of x] byte3[OF b(3), of y] by simp
qed

lemma base64_decode_encode: "base64_decode (base64_encode s) = s"
proof (induction s rule: base64_encode.induct)
  case 1
  show ?case by (simp add: base64_decode_def legal_nil)
next
  case (2 a)
  define x where "x = (of_char a :: nat)"
  have b: "x < 256" by (simp add: x_def)
  have l: "base64_legal (base64_encode [a]) = [x div 4, x mod 4 * 16]"
    using sextets(1,5)[OF b b b]
    by (simp add: Let_def x_def[symmetric] legal_cons legal_pad)
  have "x div 4 * 4 + (x mod 4 * 16) div 16 = x"
    using byte1[of 0 x] by simp
  moreover have "char_of x = a" by (simp add: x_def)
  ultimately show ?case
    unfolding base64_decode_def l by simp
next
  case (3 a b)
  define x where "x = (of_char a :: nat)"
  define y where "y = (of_char b :: nat)"
  have bx: "x < 256" and "by": "y < 256" by (simp_all add: x_def y_def)
  have l: "base64_legal (base64_encode [a, b]) = [x div 4, x mod 4 * 16 + y div 16, y mod 16 * 4]"
    using sextets(1,2,6)[OF bx "by" "by"]
    by (simp add: Let_def x_def[symmetric] y_def[symmetric] legal_cons legal_pad)
  have "(x mod 4 * 16 + y div 16) mod 16 * 16 + (y mod 16 * 4) div 4 = y"
    using byte2[OF "by", of 0 x] by simp
  moreover have "char_of x = a" "char_of y = b" by (simp_all add: x_def y_def)
  ultimately show ?case
    unfolding base64_decode_def l using byte1[OF "by", of x] by simp
next
  case (4 a b c rest)
  define x where "x = (of_char a :: nat)"
  define y where "y = (of_char b :: nat)"
  define z where "z = (of_char c :: nat)"
  have bd: "x < 256" "y < 256" "z < 256" by (simp_all add: x_def y_def z_def)
  have l: "base64_legal (base64_encode (a # b # c # rest))
      = x div 4 # (x mod 4 * 16 + y div 16) # (y mod 16 * 4 + z div 64) # z mod 64
          # base64_legal (base64_encode rest)"
    using sextets(1,2,3,4)[OF bd]
    by (simp add: Let_def x_def[symmetric] y_def[symmetric] z_def[symmetric] legal_cons)
  show ?case
    using "4.IH" unfolding base64_decode_def l x_def y_def z_def group4 by simp
qed

lemma decodeData_encodeData: "decodeData (encodeData s) = s"
proof (cases "s = []")
  case True
  then show ?thesis by (simp add: decodeData_def encodeData_def)
next
  case False
  then have "base64_encode s \<noteq> []" by (cases s rule: base64_encode.cases) (simp_all add: Let_def)
  then show ?thesis using False by (simp add: decodeData_def encodeData_def base64_decode_encode)
qed

subsection \<open>Rejected documents\<close>

text \<open>
  C6. A document without a truthy \<open>version\<close> or without \<open>settings\<close> is answered with
  \<open>success = false\<close> and the message of the format check, and the stored settings after
  the call are the stored settings before it.
\<close>

theorem importSettings_rejects_invalid:
  "\<not> truthy (version d) \<or> settings d = None \<Longrightarrow>
     importSettings (Parsed d) s
       = (\<lparr> success = False, error = Some InvalidFormat, imported = None \<rparr>, s)"
  by (auto simp: importSettings_def split: option.splits)

theorem importSettings_rejects_invalid_witness:
  "truthy Undefined = False \<and>
   importSettings
     (Parsed \<lparr> version = Undefined, timestamp = ''2024-01-01T00:00:00.000Z'',
               includeSensitiveData = Some True,
               settings = Some \<lparr> doc_proxyConfig = None, doc_terminal = None,
                                 doc_projectFilter = None, doc_serviceProviders = Some [] \<rparr> \<rparr>)
     defaultSettings
     = (\<lparr> success = False, error = Some InvalidFormat, imported = None \<rparr>, defaultSettings)"
  using importSettings_rejects_invalid
    [of "\<lparr> version = Undefined, timestamp = ''2024-01-01T00:00:00.000Z'',
               includeSensitiveData = Some True,
               settings = Some \<lparr> doc_proxyConfig = None, doc_terminal = None,
                                 doc_projectFilter = None, doc_serviceProviders = Some [] \<rparr> \<rparr>"
        defaultSettings]
  by (simp add: truthy_def)

subsection \<open>Decoding a damaged value\<close>

text \<open>
  C8. \<open>decodeData\<close> is total and does not raise, but a damaged value does not decode to
  the empty string: the handler that returns it is never entered. \<open>QUJD\<close> encodes
  \<open>ABC\<close>; cut to \<open>QUJ\<close> it decodes to \<open>AB\<close>.
\<close>

theorem decodeData_truncated:
  "encodeData ''ABC'' = ''QUJD'' \<and> decodeData ''QUJ'' = ''AB''"
  by code_simp

subsection \<open>The active account after a merge\<close>

text \<open>
  C5. After \<open>updateClaudeAccounts incoming\<close> the official provider exists, and its
  \<open>activeAccountId\<close> is the one before the call when that is the \<open>emailAddress\<close> of an
  element of \<open>incoming\<close>; otherwise it is the \<open>emailAddress\<close> of the first element of
  \<open>incoming\<close>, or the empty string when \<open>incoming\<close> is empty. The value before the call
  is that of the official provider, or of the new provider when none is stored. The test
  is \<open>===\<close> on the values as stored: a key that is \<open>null\<close> is the address of an element
  only when that address is \<open>null\<close>, a missing key only when the address is missing.
\<close>

theorem updateClaudeAccounts_active:
  "\<exists>p'. findClaudeProvider (updateClaudeAccounts incoming s) = Some p' \<and>
     activeAccountId p' =
       (let prior = activeAccountId (claudeProviderOrNew s) in
        if (\<exists>a \<in> set incoming. emailAddress a = prior) then prior
        else (case incoming of [] \<Rightarrow> Str [] | first # _ \<Rightarrow> emailAddress first))"
  by (auto simp: findClaudeProvider_updateClaudeAccounts Let_def find_None_iff)

theorem updateClaudeAccounts_active_witness:
  "\<exists>p'. findClaudeProvider
          (updateClaudeAccounts
             [ClaudeAccount ''u2'' ''b@x.com'' ''o'' ''admin'' Null ''Org'' Undefined,
              ClaudeAccount ''u3'' ''c@x.com'' ''o'' ''user'' Null ''Org'' Undefined]
             (defaultSettings\<lparr>serviceProviders :=
                [newClaudeProvider
                   \<lparr>accounts := [ClaudeAccount ''u1'' ''a@x.com'' ''o'' ''admin'' Null ''Org'' Undefined],
                    activeAccountId := Str ''a@x.com''\<rparr>]\<rparr>)) = Some p' \<and>
        activeAccountId p' = Str ''b@x.com''"
  using updateClaudeAccounts_active
    [of "[ClaudeAccount ''u2'' ''b@x.com'' ''o'' ''admin'' Null ''Org'' Undefined,
          ClaudeAccount ''u3'' ''c@x.com'' ''o'' ''user'' Null ''Org'' Undefined]"
        "defaultSettings\<lparr>serviceProviders :=
                [newClaudeProvider
                   \<lparr>accounts := [ClaudeAccount ''u1'' ''a@x.com'' ''o'' ''admin'' Null ''Org'' Undefined],
                    activeAccountId := Str ''a@x.com''\<rparr>]\<rparr>"]
  by (simp add: claudeProviderOrNew_def findClaudeProvider_def getServiceProviders_def
      newClaudeProvider_def ClaudeAccount_def)

subsection \<open>A merge of no accounts\<close>

text \<open>
  C10, as amended. \<open>updateClaudeAccounts []\<close> writes a provider back. When no provider of
  the official type is stored, the new provider (\<open>id\<close> \<open>claude_official\<close>, no accounts,
  \<open>useProxy\<close> true) is stored by \<open>id\<close>: appended when no stored provider has that
  \<open>id\<close>, and otherwise put in the place of the provider that has it. In every case the
  official provider afterwards is the one before the call (or the new one) with
  \<open>activeAccountId\<close> empty, so its accounts are unchanged.
\<close>

theorem updateClaudeAccounts_empty:
  "(findClaudeProvider s = None \<longrightarrow>
      serviceProviders (updateClaudeAccounts [] s) =
        (case findIndex (\<lambda>p. prov_id p = ''claude_official'') (serviceProviders s) of
           None \<Rightarrow> serviceProviders s @ [newClaudeProvider]
         | Some i \<Rightarrow> (serviceProviders s)[i := newClaudeProvider])) \<and>
   findClaudeProvider (updateClaudeAccounts [] s)
     = Some ((claudeProviderOrNew s)\<lparr>activeAccountId := Str []\<rparr>)"
proof -
  have "newClaudeProvider\<lparr>activeAccountId := Str []\<rparr> = newClaudeProvider"
    and "accounts newClaudeProvider = []"
    by (simp_all add: newClaudeProvider_def)
  then have a: "findClaudeProvider s = None \<Longrightarrow>
      updateClaudeAccounts [] s = addServiceProvider newClaudeProvider s"
    by (simp add: updateClaudeAccounts_def claudeProviderOrNew_def Let_def)
  have b: "prov_id newClaudeProvider = ''claude_official''"
    by (simp add: newClaudeProvider_def)
  have "findClaudeProvider s = None \<longrightarrow>
      serviceProviders (updateClaudeAccounts [] s) =
        (case findIndex (\<lambda>p. prov_id p = ''claude_official'') (serviceProviders s) of
           None \<Rightarrow> serviceProviders s @ [newClaudeProvider]
         | Some i \<Rightarrow> (serviceProviders s)[i := newClaudeProvider])"
    by (auto simp: a b addServiceProvider_def getServiceProviders_def split: option.splits)
  moreover have "findClaudeProvider (updateClaudeAccounts [] s)
     = Some ((claudeProviderOrNew s)\<lparr>activeAccountId := Str []\<rparr>)"
    by (simp add: findClaudeProvider_updateClaudeAccounts)
  ultimately show ?thesis by blast
qed

theorem updateClaudeAccounts_empty_witness:
  "findClaudeProvider defaultSettings = None \<and>
   serviceProviders (updateClaudeAccounts [] defaultSettings) = [newClaudeProvider] \<and>
   findClaudeProvider (updateClaudeAccounts [] defaultSettings) = Some newClaudeProvider"
  using updateClaudeAccounts_empty[of defaultSettings]
  by (simp add: claudeProviderOrNew_def findClaudeProvider_def getServiceProviders_def
      defaultSettings_def newClaudeProvider_def)

text \<open>
  The claim as stated fails where a third-party provider is stored under the \<open>id\<close>
  \<open>claude_official\<close>: the new provider is not appended, it replaces that provider.
\<close>

theorem updateClaudeAccounts_empty_not_appended:
  "findClaudeProvider
     (defaultSettings\<lparr>serviceProviders :=
        [\<lparr> prov_id = ''claude_official'', prov_type = third_party, prov_name = Str ''Relay'',
           accounts = [ThirdPartyAccount ''k1'' ''Relay'' ''sk-1'' ''https://relay.example'' Undefined],
           activeAccountId = Str ''k1'', useProxy = True \<rparr>]\<rparr>) = None \<and>
   serviceProviders
     (updateClaudeAccounts []
        (defaultSettings\<lparr>serviceProviders :=
           [\<lparr> prov_id = ''claude_official'', prov_type = third_party, prov_name = Str ''Relay'',
              accounts = [ThirdPartyAccount ''k1'' ''Relay'' ''sk-1'' ''https://relay.example'' Undefined],
              activeAccountId = Str ''k1'', useProxy = True \<rparr>]\<rparr>))
     = [newClaudeProvider]"
  by (simp add: updateClaudeAccounts_def claudeProviderOrNew_def findClaudeProvider_def
      getServiceProviders_def addServiceProvider_def newClaudeProvider_def Let_def)

subsection \<open>An incoming account that matches a stored one\<close>

text \<open>
  C1, as amended. Let \<open>a\<close> be the only incoming account with its \<open>emailAddress\<close>, and
  let a stored account of the official provider have that \<open>emailAddress\<close>, the first one
  at index \<open>i\<close>. After \<open>updateClaudeAccounts\<close> the account at \<open>i\<close> has every field of
  \<open>a\<close> except \<open>authorization\<close>: the stored \<open>authorization\<close> is kept whenever it is
  non-empty, and that of \<open>a\<close> is taken only when the stored one is missing, \<open>null\<close> or
  empty. The addresses are compared with \<open>===\<close>, so a missing one matches a missing one
  and \<open>null\<close> matches \<open>null\<close> only.
\<close>

theorem updateClaudeAccounts_matched:
  assumes "filter (\<lambda>b. emailAddress b = emailAddress a) incoming = [a]"
    and "findIndex (\<lambda>e. emailAddress e = emailAddress a) (accounts (claudeProviderOrNew s)) = Some i"
  shows "\<exists>p'. findClaudeProvider (updateClaudeAccounts incoming s) = Some p' \<and>
           accounts p' ! i =
             a\<lparr>authorization :=
                 (if truthy (authorization (accounts (claudeProviderOrNew s) ! i))
                  then authorization (accounts (claudeProviderOrNew s) ! i)
                  else authorization a)\<rparr>"
  using foldl_mergeAccount_match[OF assms]
  by (simp add: findClaudeProvider_updateClaudeAccounts js_or_def)

theorem updateClaudeAccounts_matched_witness:
  "\<exists>p'. findClaudeProvider
          (updateClaudeAccounts
             [ClaudeAccount ''u9'' ''a@x.com'' ''o2'' ''member'' Null ''Org2'' Undefined]
             (defaultSettings\<lparr>serviceProviders :=
                [newClaudeProvider
                   \<lparr>accounts := [ClaudeAccount ''u1'' ''a@x.com'' ''o'' ''admin'' Null ''Org'' (Str ''T'')],
                    activeAccountId := Str ''a@x.com''\<rparr>]\<rparr>)) = Some p' \<and>
        accounts p' ! 0 = ClaudeAccount ''u9'' ''a@x.com'' ''o2'' ''member'' Null ''Org2'' (Str ''T'')"
  using updateClaudeAccounts_matched
    [of "ClaudeAccount ''u9'' ''a@x.com'' ''o2'' ''member'' Null ''Org2'' Undefined"
        "[ClaudeAccount ''u9'' ''a@x.com'' ''o2'' ''member'' Null ''Org2'' Undefined]"
        "defaultSettings\<lparr>serviceProviders :=
                [newClaudeProvider
                   \<lparr>accounts := [ClaudeAccount ''u1'' ''a@x.com'' ''o'' ''admin'' Null ''Org'' (Str ''T'')],
                    activeAccountId := Str ''a@x.com''\<rparr>]\<rparr>"
        0]
  by (simp add: claudeProviderOrNew_def findClaudeProvider_def getServiceProviders_def
      newClaudeProvider_def ClaudeAccount_def truthy_def)

text \<open>
  The claim as stated fails where both records carry a token: the stored \<open>T\<close> stays, the
  incoming \<open>U\<close> is dropped.
\<close>

theorem updateClaudeAccounts_incoming_token_loses:
  "map_option (\<lambda>p. map authorization (accounts p))
     (findClaudeProvider
        (updateClaudeAccounts
           [ClaudeAccount ''u1'' ''a@x.com'' ''o'' ''admin'' Null ''Org'' (Str ''U'')]
           (defaultSettings\<lparr>serviceProviders :=
              [newClaudeProvider
                 \<lparr>accounts := [ClaudeAccount ''u1'' ''a@x.com'' ''o'' ''admin'' Null ''Org'' (Str ''T'')],
                  activeAccountId := Str ''a@x.com''\<rparr>]\<rparr>)))
     = Some [Str ''T'']"
  by (simp add: updateClaudeAccounts_def addServiceProvider_def claudeProviderOrNew_def
      findClaudeProvider_def getServiceProviders_def newClaudeProvider_def ClaudeAccount_def
      mergeAccount_def js_or_def truthy_def Let_def)

subsection \<open>A merge deletes nothing\<close>

text \<open>
  C4. \<open>updateClaudeAccounts\<close> never deletes an account of the official provider: the
  list does not get shorter, every position keeps its \<open>emailAddress\<close>, and an account
  whose \<open>emailAddress\<close> is not among the incoming ones is unchanged. In particular,
  merging \<open>[A]\<close> and then \<open>[B]\<close> with different \<open>emailAddress\<close> gives an official
  provider with both: each is there up to the \<open>authorization\<close> kept from a stored account
  of the same \<open>emailAddress\<close>, and as it came when no stored account has either address.
\<close>

theorem updateClaudeAccounts_retains:
  "(\<exists>p'. findClaudeProvider (updateClaudeAccounts incoming s) = Some p' \<and>
      length (accounts (claudeProviderOrNew s)) \<le> length (accounts p') \<and>
      (\<forall>i < length (accounts (claudeProviderOrNew s)).
         emailAddress (accounts p' ! i) = emailAddress (accounts (claudeProviderOrNew s) ! i) \<and>
         (emailAddress (accounts (claudeProviderOrNew s) ! i) \<notin> emailAddress ` set incoming
            \<longrightarrow> accounts p' ! i = accounts (claudeProviderOrNew s) ! i))) \<and>
   (emailAddress A \<noteq> emailAddress B \<longrightarrow>
     (\<exists>p'. findClaudeProvider (updateClaudeAccounts [B] (updateClaudeAccounts [A] s)) = Some p' \<and>
        (\<exists>a \<in> set (accounts p'). a\<lparr>authorization := authorization A\<rparr> = A) \<and>
        (\<exists>b \<in> set (accounts p'). b\<lparr>authorization := authorization B\<rparr> = B) \<and>
        ((\<forall>e \<in> set (accounts (claudeProviderOrNew s)).
             emailAddress e \<noteq> emailAddress A \<and> emailAddress e \<noteq> emailAddress B)
           \<longrightarrow> A \<in> set (accounts p') \<and> B \<in> set (accounts p'))))"
proof (intro conjI impI)
  let ?old = "accounts (claudeProviderOrNew s)"
  show "\<exists>p'. findClaudeProvider (updateClaudeAccounts incoming s) = Some p' \<and>
      length ?old \<le> length (accounts p') \<and>
      (\<forall>i < length ?old.
         emailAddress (accounts p' ! i) = emailAddress (?old ! i) \<and>
         (emailAddress (?old ! i) \<notin> emailAddress ` set incoming
            \<longrightarrow> accounts p' ! i = ?old ! i))"
    using length_foldl_mergeAccount[of ?old incoming] nth_foldl_mergeAccount[of _ ?old incoming]
    by (simp add: findClaudeProvider_updateClaudeAccounts)
next
  assume ne: "emailAddress A \<noteq> emailAddress B"
  let ?old = "accounts (claudeProviderOrNew s)"
  let ?s1 = "updateClaudeAccounts [A] s"
  let ?xs = "mergeAccount ?old A"
  let ?ys = "mergeAccount ?xs B"
  have p1: "accounts (claudeProviderOrNew ?s1) = ?xs"
    by (simp add: claudeProviderOrNew_def[of ?s1] findClaudeProvider_updateClaudeAccounts)
  have p2: "\<exists>p'. findClaudeProvider (updateClaudeAccounts [B] ?s1) = Some p' \<and> accounts p' = ?ys"
    by (simp add: findClaudeProvider_updateClaudeAccounts[of "[B]" ?s1] p1)
  obtain a where a: "a \<in> set ?xs" "emailAddress a = emailAddress A" "a\<lparr>authorization := authorization A\<rparr> = A"
    using set_mergeAccount_new[of ?old A] by blast
  have a': "a \<in> set ?ys"
    using set_mergeAccount_keeps[OF a(1), of B] a(2) ne by simp
  obtain b where b: "b \<in> set ?ys" "b\<lparr>authorization := authorization B\<rparr> = B"
    using set_mergeAccount_new[of ?xs B] by blast
  have fresh: "A \<in> set ?ys \<and> B \<in> set ?ys"
    if f: "\<forall>e \<in> set ?old. emailAddress e \<noteq> emailAddress A \<and> emailAddress e \<noteq> emailAddress B"
  proof -
    have x: "?xs = ?old @ [A]" using f by (simp add: mergeAccount_fresh)
    have "\<forall>e \<in> set ?xs. emailAddress e \<noteq> emailAddress B"
      unfolding x using f ne by auto
    then have "?ys = ?xs @ [B]" by (rule mergeAccount_fresh)
    then show ?thesis using x by simp
  qed
  from p2 obtain p' where p': "findClaudeProvider (updateClaudeAccounts [B] ?s1) = Some p'"
    "accounts p' = ?ys" by blast
  show "\<exists>p'. findClaudeProvider (updateClaudeAccounts [B] ?s1) = Some p' \<and>
        (\<exists>a \<in> set (accounts p'). a\<lparr>authorization := authorization A\<rparr> = A) \<and>
        (\<exists>b \<in> set (accounts p'). b\<lparr>authorization := authorization B\<rparr> = B) \<and>
        ((\<forall>e \<in> set ?old. emailAddress e \<noteq> emailAddress A \<and> emailAddress e \<noteq> emailAddress B)
           \<longrightarrow> A \<in> set (accounts p') \<and> B \<in> set (accounts p'))"
    using p' a' a(3) b fresh by auto
qed

theorem updateClaudeAccounts_retains_witness:
  "\<exists>p'. findClaudeProvider
          (updateClaudeAccounts [ClaudeAccount ''u2'' ''b@x.com'' ''o'' ''user'' Null ''Org'' Undefined]
             (updateClaudeAccounts
                [ClaudeAccount ''u1'' ''a@x.com'' ''o'' ''admin'' Null ''Org'' (Str ''T'')]
                defaultSettings)) = Some p' \<and>
        ClaudeAccount ''u1'' ''a@x.com'' ''o'' ''admin'' Null ''Org'' (Str ''T'') \<in> set (accounts p') \<and>
        ClaudeAccount ''u2'' ''b@x.com'' ''o'' ''user'' Null ''Org'' Undefined \<in> set (accounts p')"
proof -
  have e: "accounts (claudeProviderOrNew defaultSettings) = []"
    by (simp add: claudeProviderOrNew_def findClaudeProvider_def getServiceProviders_def
        defaultSettings_def newClaudeProvider_def)
  have ne: "emailAddress (ClaudeAccount ''u1'' ''a@x.com'' ''o'' ''admin'' Null ''Org'' (Str ''T''))
      \<noteq> emailAddress (ClaudeAccount ''u2'' ''b@x.com'' ''o'' ''user'' Null ''Org'' Undefined)"
    by (simp add: ClaudeAccount_def)
  show ?thesis
    using updateClaudeAccounts_retains
      [of "[]" defaultSettings
        "ClaudeAccount ''u1'' ''a@x.com'' ''o'' ''admin'' Null ''Org'' (Str ''T'')"
        "ClaudeAccount ''u2'' ''b@x.com'' ''o'' ''user'' Null ''Org'' Undefined", THEN conjunct2] e ne
    by auto
qed

subsection \<open>Invalid third-party entries of a document\<close>

lemma importThirdPartyEntry_invalid:
  "\<not> validThirdPartyEntry a \<Longrightarrow> importThirdPartyEntry h pid st a = st"
  by (simp add: importThirdPartyEntry_def split: prod.splits)

lemma foldl_importThirdPartyEntry_filter:
  "foldl (importThirdPartyEntry h pid) st (filter validThirdPartyEntry accs)
     = foldl (importThirdPartyEntry h pid) st accs"
  by (induction accs arbitrary: st) (simp_all add: importThirdPartyEntry_invalid)

lemma importProvider_withoutInvalidEntries:
  "importProvider h st (withoutInvalidEntries dp) = importProvider h st dp"
  by (cases "dp_accounts dp")
    (simp_all add: importProvider_def withoutInvalidEntries_def
      foldl_importThirdPartyEntry_filter split: prod.splits)

lemma foldl_importProvider_withoutInvalid:
  "foldl (importProvider h) st (map withoutInvalidEntries ps) = foldl (importProvider h) st ps"
  by (induction ps arbitrary: st) (simp_all add: importProvider_withoutInvalidEntries)

lemma importProvidersSection_withoutInvalid:
  "importProvidersSection h
     (st\<lparr>doc_serviceProviders := map_option (map withoutInvalidEntries) (doc_serviceProviders st)\<rparr>) pr
   = importProvidersSection h st pr"
  by (cases "doc_serviceProviders st")
    (simp_all add: importProvidersSection_def foldl_importProvider_withoutInvalid)

lemma importDocument_withoutInvalid:
  "importDocument h
     (st\<lparr>doc_serviceProviders := map_option (map withoutInvalidEntries) (doc_serviceProviders st)\<rparr>) s
   = importDocument h st s"
  by (simp add: importDocument_def importProvidersSection_withoutInvalid
      importProjectFilterSection_def importTerminalSection_def importProxySection_def)

lemma count_importThirdPartyEntry:
  "fst (snd (foldl (importThirdPartyEntry h pid) (s, n, k) accs))
     = n + length (filter validThirdPartyEntry accs)"
  by (induction accs arbitrary: s n k) (simp_all add: importThirdPartyEntry_def)

lemma count_importProvider:
  "fst (snd (importProvider h (s, n, k) dp)) = n + countedEntries dp"
  by (simp add: importProvider_def countedEntries_def count_importThirdPartyEntry Let_def
      split: option.splits)

lemma count_foldl_importProvider:
  "fst (snd (foldl (importProvider h) st ps)) = fst (snd st) + sum_list (map countedEntries ps)"
proof (induction ps arbitrary: st)
  case Nil
  show ?case by simp
next
  case (Cons dp ps)
  obtain s n k where st: "st = (s, n, k)" by (cases st) auto
  show ?case using Cons.IH[of "importProvider h st dp"] count_importProvider[of h s n k dp]
    by (simp add: st)
qed

lemma success_importDocument: "success (fst (importDocument h st s))"
  by (simp add: importDocument_def split: prod.splits)

subsection \<open>The active key of a provider\<close>

lemma find_Some_set: "find P xs = Some x \<Longrightarrow> x \<in> set xs"
  by (induction xs) (auto split: if_splits)

lemma registryOk_addServiceProvider:
  "registryOk s \<Longrightarrow> activeAccountOk q \<Longrightarrow> registryOk (addServiceProvider q s)"
  using set_upsert_const[of "\<lambda>p. prov_id p = prov_id q" q "serviceProviders s"]
  by (auto simp: registryOk_def serviceProviders_addServiceProvider)

lemma registryOk_found:
  "registryOk s \<Longrightarrow> find P (getServiceProviders s) = Some p \<Longrightarrow> activeAccountOk p"
  by (auto simp: registryOk_def getServiceProviders_def dest: find_Some_set)

lemma registryOk_removeServiceProvider:
  "registryOk s \<Longrightarrow> registryOk (removeServiceProvider pid s)"
  by (auto simp: registryOk_def removeServiceProvider_def getServiceProviders_def Let_def)

lemma registryOk_setActive:
  "registryOk s \<Longrightarrow> registryOk (setActiveProvider pid s)"
  "registryOk s \<Longrightarrow> registryOk (setActiveServiceProvider pid s)"
  by (simp_all add: registryOk_def setActiveProvider_def setActiveServiceProvider_def)

lemma registryOk_setProviderProxyUsage:
  assumes "registryOk s" shows "registryOk (setProviderProxyUsage pid b s)"
proof (cases "find (\<lambda>p. prov_id p = pid) (getServiceProviders s)")
  case None
  then show ?thesis using assms by (simp add: setProviderProxyUsage_def)
next
  case (Some p)
  have "activeAccountOk p" by (rule registryOk_found[OF assms Some])
  then have "activeAccountOk (p\<lparr>useProxy := b\<rparr>)" by (simp add: activeAccountOk_def)
  then show ?thesis using Some assms
    by (simp add: setProviderProxyUsage_def registryOk_addServiceProvider)
qed

lemma registryOk_setActiveAccount:
  assumes "registryOk s" and "keepsActiveKey s (SetActiveAccount pid k)"
  shows "registryOk (setActiveAccount pid k s)"
proof (cases "find (\<lambda>p. prov_id p = pid) (getServiceProviders s)")
  case None
  then show ?thesis using assms by (simp add: setActiveAccount_def)
next
  case (Some p)
  have "activeAccountOk (p\<lparr>activeAccountId := Str k\<rparr>)"
    using assms(2) Some by (auto simp: activeAccountOk_def providerById_def truthy_def)
  then have "registryOk (addServiceProvider (p\<lparr>activeAccountId := Str k\<rparr>) s)"
    using assms(1) by (simp add: registryOk_addServiceProvider)
  then show ?thesis using Some
    by (simp add: setActiveAccount_def registryOk_setActive)
qed

lemma emails_mergeAccount:
  "emailAddress ` set (mergeAccount xs a) = insert (emailAddress a) (emailAddress ` set xs)"
  by (induction xs) (auto simp: mergeAccount_Nil mergeAccount_Cons)

lemma emails_foldl_mergeAccount:
  "emailAddress ` set (foldl mergeAccount xs bs) = emailAddress ` set xs \<union> emailAddress ` set bs"
  by (induction bs arbitrary: xs) (auto simp: emails_mergeAccount)

lemma registryOk_updateClaudeAccounts:
  assumes "registryOk s" shows "registryOk (updateClaudeAccounts accs s)"
proof -
  define P where "P = claudeProviderOrNew s"
  define act where "act = (if find (\<lambda>acc. emailAddress acc = activeAccountId P) accs = None
             then (case accs of [] \<Rightarrow> Str [] | first # _ \<Rightarrow> emailAddress first)
             else activeAccountId P)"
  have "\<not> truthy act \<or> act \<in> emailAddress ` set accs"
  proof (cases "find (\<lambda>acc. emailAddress acc = activeAccountId P) accs = None")
    case True
    then have "act = (case accs of [] \<Rightarrow> Str [] | first # _ \<Rightarrow> emailAddress first)"
      by (simp add: act_def)
    then show ?thesis by (cases accs) (simp_all add: truthy_def)
  next
    case False
    then have a: "act = activeAccountId P" by (auto simp: act_def)
    from False obtain b where "b \<in> set accs" "emailAddress b = activeAccountId P"
      by (auto simp: find_None_iff)
    then have "activeAccountId P \<in> emailAddress ` set accs" by (metis image_eqI)
    then show ?thesis by (simp add: a)
  qed
  then have "\<not> truthy act \<or> act \<in> emailAddress ` set (foldl mergeAccount (accounts P) accs)"
    by (auto simp: emails_foldl_mergeAccount)
  then have "activeAccountOk (P\<lparr>accounts := foldl mergeAccount (accounts P) accs, activeAccountId := act\<rparr>)"
    unfolding activeAccountOk_def
    by (auto simp: P_def claudeProviderOrNew_type naturalKey_def)
  moreover have "updateClaudeAccounts accs s
      = addServiceProvider (P\<lparr>accounts := foldl mergeAccount (accounts P) accs, activeAccountId := act\<rparr>) s"
    by (simp add: updateClaudeAccounts_def Let_def P_def act_def)
  ultimately show ?thesis using assms
    by (simp add: registryOk_addServiceProvider)
qed

lemma registryOk_updateClaudeAccountAuthorization:
  assumes "registryOk s" shows "registryOk (updateClaudeAccountAuthorization email token s)"
proof (cases "findClaudeProvider s")
  case None
  then show ?thesis using assms by (simp add: updateClaudeAccountAuthorization_def)
next
  case (Some p)
  have ok: "activeAccountOk p" and ty: "prov_type p = claude_official"
    using registryOk_found[OF assms, of "\<lambda>p. prov_type p = claude_official" p] Some
      find_Some_holds[of "\<lambda>p. prov_type p = claude_official" "getServiceProviders s" p]
    by (simp_all add: findClaudeProvider_def)
  show ?thesis
  proof (cases "findIndex (\<lambda>acc. emailAddress acc = Str email) (accounts p)")
    case None
    then show ?thesis using Some assms by (simp add: updateClaudeAccountAuthorization_def)
  next
    case (Some i)
    let ?xs = "(accounts p)[i := (accounts p ! i)\<lparr>authorization := Str token\<rparr>]"
    have "i < length (accounts p)" using Some by (simp add: findIndex_Some_iff)
    then have "map emailAddress ?xs = map emailAddress (accounts p)"
      by (auto simp: list_eq_iff_nth_eq nth_list_update)
    then have "emailAddress ` set ?xs = emailAddress ` set (accounts p)"
      by (metis set_map)
    then have "\<And>v. (\<exists>a \<in> set ?xs. emailAddress a = v) \<longleftrightarrow> (\<exists>a \<in> set (accounts p). emailAddress a = v)"
      by (metis (no_types, lifting) image_iff)
    then have "activeAccountOk (p\<lparr>accounts := ?xs\<rparr>)"
      using ok by (simp add: activeAccountOk_def ty naturalKey_def)
    then show ?thesis using Some \<open>findClaudeProvider s = Some p\<close> assms
      by (simp add: updateClaudeAccountAuthorization_def registryOk_addServiceProvider)
  qed
qed

lemma ids_upsert:
  "acc_id ` set (upsertWith (\<lambda>a. acc_id a = acc_id y) (\<lambda>_. y) y xs) = insert (acc_id y) (acc_id ` set xs)"
  by (induction xs) auto

lemma registryOk_addThirdPartyAccount:
  assumes "registryOk s" and "keepsActiveKey s (AddThirdPartyAccount pid a)"
  shows "registryOk (addThirdPartyAccount pid a s)"
proof -
  define p where "p = (case find (\<lambda>p. prov_id p = pid) (getServiceProviders s) of
               Some p \<Rightarrow> p
             | None \<Rightarrow>
                 \<lparr> prov_id = pid, prov_type = third_party,
                   prov_name = acc_name a, accounts = [], activeAccountId = Str [],
                   useProxy = True \<rparr>)"
  define accs where "accs = upsertWith (\<lambda>x. acc_id x = acc_id a) (\<lambda>_. a) a (accounts p)"
  define act where "act = (if \<not> truthy (activeAccountId p) \<and> accs \<noteq> []
             then (case accs of [] \<Rightarrow> Undefined | first # _ \<Rightarrow> acc_id first)
             else activeAccountId p)"
  have ty: "prov_type p = third_party"
    using assms(2) by (auto simp: p_def providerById_def split: option.splits)
  have ok: "activeAccountOk p"
    using registryOk_found[OF assms(1), of "\<lambda>p. prov_id p = pid"]
    by (auto simp: p_def activeAccountOk_def truthy_def split: option.splits)
  have ids: "acc_id ` set accs = insert (acc_id a) (acc_id ` set (accounts p))"
    unfolding accs_def by (rule ids_upsert)
  have "\<not> truthy act \<or> act \<in> acc_id ` set accs"
  proof (cases "truthy (activeAccountId p)")
    case True
    then have "act = activeAccountId p" by (simp add: act_def)
    moreover have "activeAccountId p \<in> acc_id ` set (accounts p)"
      using ok True by (auto simp: activeAccountOk_def ty naturalKey_def intro: rev_image_eqI)
    ultimately show ?thesis by (simp add: ids)
  next
    case False
    then show ?thesis by (cases accs) (auto simp: act_def)
  qed
  then have q: "activeAccountOk (p\<lparr>accounts := accs, activeAccountId := act\<rparr>)"
    by (auto simp: activeAccountOk_def ty naturalKey_def)
  have "addThirdPartyAccount pid a s = addServiceProvider (p\<lparr>accounts := accs, activeAccountId := act\<rparr>) s"
    unfolding addThirdPartyAccount_def Let_def p_def[symmetric]
      findIndex_upsertWith[where f="\<lambda>_. a"] accs_def[symmetric] act_def[symmetric]
    by (rule refl)
  then show ?thesis using q assms(1) by (simp add: registryOk_addServiceProvider)
qed

lemma registryOk_removeThirdPartyAccount:
  assumes "registryOk s" and "keepsActiveKey s (RemoveThirdPartyAccount pid k)"
  shows "registryOk (removeThirdPartyAccount pid k s)"
proof (cases "find (\<lambda>p. prov_id p = pid) (getServiceProviders s)")
  case None
  then show ?thesis using assms by (simp add: removeThirdPartyAccount_def)
next
  case (Some p)
  define accs where "accs = filter (\<lambda>acc. acc_id acc \<noteq> Str k) (accounts p)"
  define act where "act = (if activeAccountId p = Str k
                  then (case accs of [] \<Rightarrow> Str [] | first # _ \<Rightarrow> acc_id first)
                  else activeAccountId p)"
  have ty: "prov_type p = third_party"
    using assms(2) Some by (simp add: providerById_def)
  have ok: "activeAccountOk p" by (rule registryOk_found[OF assms(1) Some])
  have "\<not> truthy act \<or> act \<in> acc_id ` set accs"
  proof (cases "activeAccountId p = Str k")
    case True
    then show ?thesis by (cases accs) (auto simp: act_def truthy_def)
  next
    case False
    then have "act = activeAccountId p" by (simp add: act_def)
    moreover have "truthy (activeAccountId p) \<Longrightarrow> activeAccountId p \<in> acc_id ` set accs"
    proof -
      assume "truthy (activeAccountId p)"
      then obtain a where a: "a \<in> set (accounts p)" "acc_id a = activeAccountId p"
        using ok by (auto simp: activeAccountOk_def ty naturalKey_def)
      then have "a \<in> set accs" using False by (simp add: accs_def)
      then show ?thesis using a(2) by (metis image_eqI)
    qed
    ultimately show ?thesis by auto
  qed
  then have q: "activeAccountOk (p\<lparr>accounts := accs, activeAccountId := act\<rparr>)"
    by (auto simp: activeAccountOk_def ty naturalKey_def)
  have "removeThirdPartyAccount pid k s = addServiceProvider (p\<lparr>accounts := accs, activeAccountId := act\<rparr>) s"
    by (simp add: removeThirdPartyAccount_def Some Let_def accs_def act_def)
  then show ?thesis using q assms(1) by (simp add: registryOk_addServiceProvider)
qed

lemma registryOk_applyMutator:
  "registryOk s \<Longrightarrow> keepsActiveKey s m \<Longrightarrow> registryOk (applyMutator m s)"
proof (cases m)
  case (SetActiveAccount pid k)
  assume "registryOk s" "keepsActiveKey s m"
  then show ?thesis using registryOk_setActiveAccount[of s pid k] SetActiveAccount by simp
next
  case (AddThirdPartyAccount pid a)
  assume "registryOk s" "keepsActiveKey s m"
  then show ?thesis using registryOk_addThirdPartyAccount[of s pid a] AddThirdPartyAccount by simp
next
  case (RemoveThirdPartyAccount pid k)
  assume "registryOk s" "keepsActiveKey s m"
  then show ?thesis using registryOk_removeThirdPartyAccount[of s pid k] RemoveThirdPartyAccount by simp
qed (simp_all add: registryOk_addServiceProvider registryOk_removeServiceProvider
      registryOk_setActive registryOk_setProviderProxyUsage registryOk_updateClaudeAccounts
      registryOk_updateClaudeAccountAuthorization)

text \<open>
  C3, as amended. From a registry in which every \<open>activeAccountId\<close> is empty or the
  natural key of an account of its provider, every finite sequence of mutator calls leads
  to such a registry again, provided that each \<open>addServiceProvider\<close> is given a provider
  with that property, each \<open>setActiveAccount\<close> names the empty key or the key of an
  account of the provider, and each call on a third-party account meets a provider of the
  third-party type. The methods check none of this.
\<close>

theorem registryOk_runMutators:
  "registryOk s \<Longrightarrow> allKeepActiveKey s ms \<Longrightarrow> registryOk (runMutators ms s)"
proof (induction ms arbitrary: s)
  case Nil
  then show ?case by simp
next
  case (Cons m ms)
  then show ?case using registryOk_applyMutator[of s m] by simp
qed

theorem registryOk_runMutators_witness:
  "registryOk
     (runMutators
        [UpdateClaudeAccounts [ClaudeAccount ''u1'' ''a@x.com'' ''o'' ''admin'' Null ''Org'' Undefined],
         AddThirdPartyAccount ''third_party_1''
           (ThirdPartyAccount ''k1'' ''Relay'' ''sk-1'' ''https://relay.example'' Undefined),
         AddThirdPartyAccount ''third_party_1''
           (ThirdPartyAccount ''k2'' ''Relay 2'' ''sk-2'' ''https://relay.example'' Undefined),
         SetActiveAccount ''third_party_1'' ''k2'',
         RemoveThirdPartyAccount ''third_party_1'' ''k2'',
         SetProviderProxyUsage ''claude_official'' False]
        defaultSettings)"
proof -
  have a: "registryOk defaultSettings"
    by (simp add: registryOk_def defaultSettings_def)
  have b: "allKeepActiveKey defaultSettings
        [UpdateClaudeAccounts [ClaudeAccount ''u1'' ''a@x.com'' ''o'' ''admin'' Null ''Org'' Undefined],
         AddThirdPartyAccount ''third_party_1''
           (ThirdPartyAccount ''k1'' ''Relay'' ''sk-1'' ''https://relay.example'' Undefined),
         AddThirdPartyAccount ''third_party_1''
           (ThirdPartyAccount ''k2'' ''Relay 2'' ''sk-2'' ''https://relay.example'' Undefined),
         SetActiveAccount ''third_party_1'' ''k2'',
         RemoveThirdPartyAccount ''third_party_1'' ''k2'',
         SetProviderProxyUsage ''claude_official'' False]"
    by code_simp
  show ?thesis by (rule registryOk_runMutators[OF a b])
qed

text \<open>
  The claim as stated fails: \<open>setActiveAccount\<close> stores the key it is given without
  looking for the account.
\<close>

theorem setActiveAccount_dangling:
  "map (\<lambda>p. (activeAccountId p, map acc_id (accounts p)))
     (serviceProviders
        (runMutators
           [AddThirdPartyAccount ''third_party_1''
              (ThirdPartyAccount ''k1'' ''Relay'' ''sk-1'' ''https://relay.example'' Undefined),
            SetActiveAccount ''third_party_1'' ''ghost'']
           defaultSettings))
     = [(Str ''ghost'', [Str ''k1''])] \<and>
   \<not> registryOk
       (runMutators
          [AddThirdPartyAccount ''third_party_1''
             (ThirdPartyAccount ''k1'' ''Relay'' ''sk-1'' ''https://relay.example'' Undefined),
           SetActiveAccount ''third_party_1'' ''ghost'']
          defaultSettings)"
  by code_simp

subsection \<open>A stored key under an import without sensitive data\<close>

lemma providerById_addServiceProvider:
  "providerById pid (addServiceProvider q s)
     = (if prov_id q = pid then Some q else providerById pid s)"
  by (auto simp: providerById_def getServiceProviders_def serviceProviders_addServiceProvider
      find_id_upsert find_other_id_upsert)

lemma acc_id_importThirdPartyAccount [simp]:
  "acc_id (importThirdPartyAccount h e) = acc_id e"
  by (simp add: importThirdPartyAccount_def)


lemma addThirdPartyAccount_written:
  "\<exists>act. addThirdPartyAccount pid a s =
     addServiceProvider
       ((tpProvider pid a s)
          \<lparr>accounts := upsertWith (\<lambda>x. acc_id x = acc_id a) (\<lambda>_. a) a (accounts (tpProvider pid a s)),
           activeAccountId := act\<rparr>) s"
  unfolding addThirdPartyAccount_def Let_def tpProvider_def providerById_def
    findIndex_upsertWith[where f="\<lambda>_. a"]
  by blast

lemma prov_id_tpProvider: "prov_id (tpProvider pid a s) = pid"
  by (auto simp: tpProvider_def providerById_def split: option.splits dest: find_Some_holds)

lemma findIndex_upsert_other:
  "findIndex Q xs = Some i \<Longrightarrow> \<not> Q y \<Longrightarrow> (\<And>x. P x \<Longrightarrow> \<not> Q x) \<Longrightarrow>
     findIndex Q (upsertWith P (\<lambda>_. y) y xs) = Some i \<and> upsertWith P (\<lambda>_. y) y xs ! i = xs ! i"
proof (induction xs arbitrary: i)
  case Nil
  then show ?case by simp
next
  case (Cons x xs)
  show ?case
  proof (cases "Q x")
    case True
    then have "\<not> P x" using Cons.prems(3) by blast
    then show ?thesis using True Cons.prems(1) by simp
  next
    case False
    then obtain j where j: "findIndex Q xs = Some j" "i = Suc j"
      using Cons.prems(1) by (auto split: if_splits)
    show ?thesis
      using Cons.IH[OF j(1) Cons.prems(2) Cons.prems(3)] False Cons.prems(2) j by simp
  qed
qed














lemma fst_importThirdPartyEntry:
  "fst (importThirdPartyEntry h pid st a) =
     (if validThirdPartyEntry a
      then addThirdPartyAccount pid (importThirdPartyAccount h a) (fst st) else fst st)"
  by (cases st) (simp add: importThirdPartyEntry_def)




lemma fst_importProvider_official:
  "dp_type dp = ''claude_official'' \<Longrightarrow> dp_accounts dp = Some accs \<Longrightarrow>
     fst (importProvider h st dp) = updateClaudeAccounts (map (importClaudeAccount h) accs) (fst st)"
  by (cases st) (simp add: importProvider_def Let_def)

lemma importProvider_cases:
  obtains (skip) "importProvider h st dp = st"
  | (official) accs where "dp_type dp = ''claude_official''" "dp_accounts dp = Some accs"
  | (third) accs where "dp_type dp = ''third_party''" "dp_accounts dp = Some accs"
      "importProvider h st dp = foldl (importThirdPartyEntry h (dp_id dp)) st accs"
proof (cases "dp_accounts dp")
  case None
  then have "importProvider h st dp = st" by (cases st) (simp add: importProvider_def)
  then show ?thesis by (rule skip)
next
  case (Some accs)
  show ?thesis
  proof (cases "dp_type dp = ''claude_official''")
    case True
    then show ?thesis using Some by (rule official)
  next
    case False
    show ?thesis
    proof (cases "dp_type dp = ''third_party''")
      case True
      have "importProvider h st dp = foldl (importThirdPartyEntry h (dp_id dp)) st accs"
        using True Some by (cases st) (simp add: importProvider_def)
      with True Some show ?thesis by (rule third)
    next
      case f: False
      have "importProvider h st dp = st"
        using False f Some by (cases st) (simp add: importProvider_def)
      then show ?thesis by (rule skip)
    qed
  qed
qed





lemma serviceProviders_sections:
  "serviceProviders (fst (importProxySection h st pr)) = serviceProviders (fst pr)"
  "serviceProviders (fst (importTerminalSection st pr)) = serviceProviders (fst pr)"
  "serviceProviders (fst (importProjectFilterSection st pr)) = serviceProviders (fst pr)"
  by (cases pr; simp add: importProxySection_def importTerminalSection_def
      importProjectFilterSection_def importProxyConfig_def updateProxyConfig_def
      updateTerminalConfig_def updateProjectFilterConfig_def Let_def split: option.splits)+

lemma fst_importProvidersSection:
  "doc_serviceProviders st = Some ps \<Longrightarrow>
     fst (importProvidersSection h st pr) = fst (foldl (importProvider h) (fst pr, 0, 0) ps)"
  by (cases pr) (simp add: importProvidersSection_def split: prod.splits)

lemma snd_importDocument:
  "doc_serviceProviders st = Some ps \<Longrightarrow>
     \<exists>s3. serviceProviders s3 = serviceProviders s \<and>
          snd (importDocument h st s) = fst (foldl (importProvider h) (s3, 0, 0) ps)"
proof -
  assume ps: "doc_serviceProviders st = Some ps"
  let ?pr = "importProjectFilterSection st (importTerminalSection st (importProxySection h st (s, [])))"
  have "serviceProviders (fst ?pr) = serviceProviders s"
    by (simp add: serviceProviders_sections)
  moreover have "snd (importDocument h st s) = fst (foldl (importProvider h) (fst ?pr, 0, 0) ps)"
    using fst_importProvidersSection[OF ps, of h ?pr]
    by (auto simp: importDocument_def split: prod.splits)
  ultimately show ?thesis by blast
qed





subsection \<open>Valid and invalid third-party entries of a document\<close>

lemma storedAs_iff:
  "storedAs pid a s \<longleftrightarrow>
     (\<exists>p i. providerById pid s = Some p \<and>
        findIndex (\<lambda>x. acc_id x = acc_id a) (accounts p) = Some i \<and> accounts p ! i = a)"
  by (auto simp: storedAs_def split: option.splits)

lemma upsert_stores:
  "P y \<Longrightarrow> \<exists>i. findIndex P (upsertWith P (\<lambda>_. y) y xs) = Some i \<and> upsertWith P (\<lambda>_. y) y xs ! i = y"
  by (induction xs) auto

lemma storedAs_addThirdPartyAccount: "storedAs pid a (addThirdPartyAccount pid a s)"
proof -
  obtain act where w: "addThirdPartyAccount pid a s =
     addServiceProvider
       ((tpProvider pid a s)
          \<lparr>accounts := upsertWith (\<lambda>x. acc_id x = acc_id a) (\<lambda>_. a) a (accounts (tpProvider pid a s)),
           activeAccountId := act\<rparr>) s"
    using addThirdPartyAccount_written[of pid a s] by blast
  obtain i where "findIndex (\<lambda>x. acc_id x = acc_id a)
       (upsertWith (\<lambda>x. acc_id x = acc_id a) (\<lambda>_. a) a (accounts (tpProvider pid a s))) = Some i"
    "upsertWith (\<lambda>x. acc_id x = acc_id a) (\<lambda>_. a) a (accounts (tpProvider pid a s)) ! i = a"
    using upsert_stores[of "\<lambda>x. acc_id x = acc_id a" a "accounts (tpProvider pid a s)"] by auto
  then show ?thesis
    unfolding w storedAs_iff
    by (simp add: providerById_addServiceProvider prov_id_tpProvider)
qed

lemma storedAs_addThirdPartyAccount_other:
  assumes "storedAs pid b s" and "pid' \<noteq> pid \<or> acc_id a \<noteq> acc_id b"
  shows "storedAs pid b (addThirdPartyAccount pid' a s)"
proof -
  obtain act where w: "addThirdPartyAccount pid' a s =
     addServiceProvider
       ((tpProvider pid' a s)
          \<lparr>accounts := upsertWith (\<lambda>x. acc_id x = acc_id a) (\<lambda>_. a) a (accounts (tpProvider pid' a s)),
           activeAccountId := act\<rparr>) s"
    using addThirdPartyAccount_written[of pid' a s] by blast
  obtain p i where p: "providerById pid s = Some p"
    "findIndex (\<lambda>x. acc_id x = acc_id b) (accounts p) = Some i" "accounts p ! i = b"
    using assms(1) unfolding storedAs_iff by blast
  show ?thesis
  proof (cases "pid' = pid")
    case False
    then show ?thesis
      unfolding w storedAs_iff using p
      by (simp add: providerById_addServiceProvider prov_id_tpProvider)
  next
    case True
    then have ne: "acc_id a \<noteq> acc_id b" using assms(2) by simp
    have tp: "tpProvider pid' a s = p" using p(1) True by (simp add: tpProvider_def)
    have pid: "prov_id p = pid" using prov_id_tpProvider[of pid' a s] tp True by simp
    let ?xs = "upsertWith (\<lambda>x. acc_id x = acc_id a) (\<lambda>_. a) a (accounts p)"
    have "findIndex (\<lambda>x. acc_id x = acc_id b) ?xs = Some i \<and> ?xs ! i = accounts p ! i"
      using findIndex_upsert_other[of "\<lambda>x. acc_id x = acc_id b" "accounts p" i a
          "\<lambda>x. acc_id x = acc_id a"] p(2) ne by simp
    then show ?thesis
      unfolding w tp storedAs_iff using p(3)
      by (simp add: providerById_addServiceProvider pid)
  qed
qed

lemma lastValidEntry_snoc:
  "lastValidEntry k (xs @ [x]) =
     (if validThirdPartyEntry x \<and> acc_id x = k then x else lastValidEntry k xs)"
  by (simp add: lastValidEntry_def)

lemma lastValidEntry_holds:
  "e \<in> set xs \<Longrightarrow> validThirdPartyEntry e \<Longrightarrow>
     validThirdPartyEntry (lastValidEntry (acc_id e) xs) \<and>
     acc_id (lastValidEntry (acc_id e) xs) = acc_id e \<and>
     lastValidEntry (acc_id e) xs \<in> set xs"
proof -
  assume e: "e \<in> set xs" "validThirdPartyEntry e"
  let ?f = "filter (\<lambda>x. validThirdPartyEntry x \<and> acc_id x = acc_id e) xs"
  have "?f \<noteq> []" using e by (auto simp: filter_empty_conv)
  then have "last ?f \<in> set ?f" by (rule last_in_set)
  then show ?thesis by (simp add: lastValidEntry_def)
qed

lemma storedAs_entries:
  "e \<in> set accs \<Longrightarrow> validThirdPartyEntry e \<Longrightarrow>
     storedAs pid (importThirdPartyAccount h (lastValidEntry (acc_id e) accs))
       (fst (foldl (importThirdPartyEntry h pid) st accs))"
proof (induction accs rule: rev_induct)
  case Nil
  then show ?case by simp
next
  case (snoc x xs)
  let ?s = "fst (foldl (importThirdPartyEntry h pid) st xs)"
  show ?case
  proof (cases "validThirdPartyEntry x")
    case False
    then have "e \<in> set xs" using snoc.prems by auto
    then show ?thesis
      using snoc.IH snoc.prems(2) False
      by (simp add: lastValidEntry_snoc importThirdPartyEntry_invalid)
  next
    case True
    show ?thesis
    proof (cases "acc_id x = acc_id e")
      case same: True
      show ?thesis
        using True same storedAs_addThirdPartyAccount[of pid "importThirdPartyAccount h x" ?s]
        by (simp add: lastValidEntry_snoc fst_importThirdPartyEntry)
    next
      case other: False
      then have in_xs: "e \<in> set xs" using snoc.prems by auto
      have st: "storedAs pid (importThirdPartyAccount h (lastValidEntry (acc_id e) xs)) ?s"
        by (rule snoc.IH[OF in_xs snoc.prems(2)])
      have "acc_id (importThirdPartyAccount h x)
          \<noteq> acc_id (importThirdPartyAccount h (lastValidEntry (acc_id e) xs))"
        using other lastValidEntry_holds[OF in_xs snoc.prems(2)] by simp
      then show ?thesis
        using True other
          storedAs_addThirdPartyAccount_other[OF st, of pid "importThirdPartyAccount h x"]
        by (simp add: lastValidEntry_snoc fst_importThirdPartyEntry)
    qed
  qed
qed

lemma runMutators_append: "runMutators (xs @ ys) s = runMutators ys (runMutators xs s)"
  by (induction xs arbitrary: s) simp_all

lemma fst_entries_calls:
  "fst (foldl (importThirdPartyEntry h pid) st accs) = runMutators (entryCalls h pid accs) (fst st)"
  by (induction accs arbitrary: st) (simp_all add: entryCalls_def fst_importThirdPartyEntry)

lemma fst_importProvider_calls:
  "fst (importProvider h st dp) = runMutators (providerCalls h dp) (fst st)"
proof (cases rule: importProvider_cases[of h st dp])
  case skip
  have "providerCalls h dp = [] \<or> (\<exists>accs. dp_accounts dp = Some accs \<and>
          (dp_type dp = ''claude_official'' \<or> dp_type dp = ''third_party''))"
    by (auto simp: providerCalls_def split: option.splits)
  then show ?thesis
  proof
    assume "providerCalls h dp = []"
    then show ?thesis using skip by simp
  next
    assume "\<exists>accs. dp_accounts dp = Some accs \<and>
          (dp_type dp = ''claude_official'' \<or> dp_type dp = ''third_party'')"
    then obtain accs where a: "dp_accounts dp = Some accs"
      "dp_type dp = ''claude_official'' \<or> dp_type dp = ''third_party''" by blast
    show ?thesis
      using a fst_importProvider_official[of dp accs h st] fst_entries_calls[of h "dp_id dp" st accs]
      by (cases st) (auto simp: providerCalls_def importProvider_def)
  qed
next
  case (official accs)
  then show ?thesis
    by (simp add: fst_importProvider_official[OF official] providerCalls_def)
next
  case (third accs)
  then show ?thesis by (simp add: providerCalls_def fst_entries_calls)
qed

lemma fst_providers_calls:
  "fst (foldl (importProvider h) st ps) = runMutators (importCalls h ps) (fst st)"
  by (induction ps arbitrary: st)
    (simp_all add: importCalls_def runMutators_append fst_importProvider_calls)

lemma snd_importDocument_calls:
  assumes "doc_serviceProviders ds = Some ps"
  shows "snd (importDocument h ds s) = runMutators (importCalls h ps) (fst (beforeProviders h ds s))"
  using fst_importProvidersSection[OF assms, of h "beforeProviders h ds s"]
    fst_providers_calls[of h "(fst (beforeProviders h ds s), 0, 0)" ps]
  by (auto simp: importDocument_def beforeProviders_def split: prod.splits)

lemma labels_importDocument:
  assumes "doc_serviceProviders ds = Some ps"
  shows "\<exists>sens. imported (fst (importDocument h ds s))
      = Some (snd (beforeProviders h ds s) @
              (if 0 < sum_list (map countedEntries ps)
               then [AccountsLabel (sum_list (map countedEntries ps)) sens] else []))"
proof -
  obtain s0 l where pr: "beforeProviders h ds s = (s0, l)" by (cases "beforeProviders h ds s") auto
  obtain s' c n where f: "foldl (importProvider h) (s0, 0, 0) ps = (s', c, n)"
    by (metis surj_pair)
  have c: "c = sum_list (map countedEntries ps)"
    using count_foldl_importProvider[of h "(s0, 0, 0)" ps] f by simp
  have "importDocument h ds s =
      (case importProvidersSection h ds (s0, l) of
         (s', labels) \<Rightarrow> (\<lparr> success = True, error = None, imported = Some labels \<rparr>, s'))"
    using pr by (simp add: importDocument_def beforeProviders_def)
  then show ?thesis
    using c by (simp add: importProvidersSection_def assms f pr)
qed

lemma count_entry_valid:
  "validThirdPartyEntry e \<Longrightarrow> fst (snd (importThirdPartyEntry h pid st e)) = fst (snd st) + 1"
  by (cases st) (simp add: importThirdPartyEntry_def)

text \<open>
  C7. A third-party entry whose \<open>id\<close>, \<open>name\<close> or \<open>baseUrl\<close> is missing, \<open>null\<close> or
  empty is skipped, and the valid entries are stored. The import of a document gives the
  result and the settings that the import of the document without its invalid entries
  gives. The import of a document with \<open>version\<close> and \<open>settings\<close> succeeds. The step of
  the loop on an invalid entry changes neither the settings nor the counters; the step on
  a valid entry stores the account built from it under the provider of the entry and
  counts it. After the entries of a third-party provider of the document, the account
  stored under the \<open>id\<close> of a valid entry is the one built from the last valid entry with
  that \<open>id\<close>. The settings after the import are the settings after \<open>importCalls\<close>, the
  calls for the official entries and the valid third-party entries in the order of the
  document, and the list \<open>imported\<close> ends with the label of the accounts, whose number is
  that of the official entries plus that of the valid third-party entries (no label for
  the number 0).
\<close>

theorem importSettings_skips_invalid_entries:
  "importSettings (Parsed d) s = importSettings (Parsed (withoutInvalidThirdParty d)) s \<and>
   (truthy (version d) \<and> settings d \<noteq> None \<longrightarrow> success (fst (importSettings (Parsed d) s))) \<and>
   (\<not> validThirdPartyEntry e \<longrightarrow> importThirdPartyEntry h pid st e = st) \<and>
   (validThirdPartyEntry e \<longrightarrow>
      storedAs pid (importThirdPartyAccount h e) (fst (importThirdPartyEntry h pid st e)) \<and>
      fst (snd (importThirdPartyEntry h pid st e)) = fst (snd st) + 1) \<and>
   (dp_type dp = ''third_party'' \<and> dp_accounts dp = Some accs \<and> e \<in> set accs \<and>
    validThirdPartyEntry e \<longrightarrow>
      storedAs (dp_id dp) (importThirdPartyAccount h (lastValidEntry (acc_id e) accs))
        (fst (importProvider h st dp))) \<and>
   (truthy (version d) \<and> settings d = Some ds \<and> doc_serviceProviders ds = Some ps \<longrightarrow>
      snd (importSettings (Parsed d) s)
        = runMutators (importCalls (includeSensitiveData d = Some True) ps)
            (fst (beforeProviders (includeSensitiveData d = Some True) ds s)) \<and>
      (\<exists>sens. imported (fst (importSettings (Parsed d) s))
         = Some (snd (beforeProviders (includeSensitiveData d = Some True) ds s) @
                 (if 0 < sum_list (map countedEntries ps)
                  then [AccountsLabel (sum_list (map countedEntries ps)) sens] else []))))"
proof (intro conjI impI)
  show "importSettings (Parsed d) s = importSettings (Parsed (withoutInvalidThirdParty d)) s"
    by (cases "settings d")
      (simp_all add: importSettings_def withoutInvalidThirdParty_def importDocument_withoutInvalid)
next
  assume "truthy (version d) \<and> settings d \<noteq> None"
  then show "success (fst (importSettings (Parsed d) s))"
    by (auto simp: importSettings_def success_importDocument)
next
  assume "\<not> validThirdPartyEntry e"
  then show "importThirdPartyEntry h pid st e = st" by (rule importThirdPartyEntry_invalid)
next
  assume "validThirdPartyEntry e"
  then show "storedAs pid (importThirdPartyAccount h e) (fst (importThirdPartyEntry h pid st e))"
    by (simp add: fst_importThirdPartyEntry storedAs_addThirdPartyAccount)
next
  assume "validThirdPartyEntry e"
  then show "fst (snd (importThirdPartyEntry h pid st e)) = fst (snd st) + 1"
    by (rule count_entry_valid)
next
  assume a: "dp_type dp = ''third_party'' \<and> dp_accounts dp = Some accs \<and> e \<in> set accs \<and>
    validThirdPartyEntry e"
  then have "importProvider h st dp = foldl (importThirdPartyEntry h (dp_id dp)) st accs"
    by (cases st) (simp add: importProvider_def)
  then show "storedAs (dp_id dp) (importThirdPartyAccount h (lastValidEntry (acc_id e) accs))
        (fst (importProvider h st dp))"
    using a storedAs_entries[of e accs "dp_id dp" h st] by simp
next
  assume a: "truthy (version d) \<and> settings d = Some ds \<and> doc_serviceProviders ds = Some ps"
  then have imp: "importSettings (Parsed d) s = importDocument (includeSensitiveData d = Some True) ds s"
    by (simp add: importSettings_def)
  show "snd (importSettings (Parsed d) s)
        = runMutators (importCalls (includeSensitiveData d = Some True) ps)
            (fst (beforeProviders (includeSensitiveData d = Some True) ds s))"
    unfolding imp using a by (simp add: snd_importDocument_calls)
next
  assume a: "truthy (version d) \<and> settings d = Some ds \<and> doc_serviceProviders ds = Some ps"
  then have imp: "importSettings (Parsed d) s = importDocument (includeSensitiveData d = Some True) ds s"
    by (simp add: importSettings_def)
  show "\<exists>sens. imported (fst (importSettings (Parsed d) s))
         = Some (snd (beforeProviders (includeSensitiveData d = Some True) ds s) @
                 (if 0 < sum_list (map countedEntries ps)
                  then [AccountsLabel (sum_list (map countedEntries ps)) sens] else []))"
    unfolding imp using a labels_importDocument[of ds ps "includeSensitiveData d = Some True" s]
    by simp
qed

theorem importSettings_skips_invalid_entries_witness:
  "importSettings
     (Parsed \<lparr> version = Str ''1.0.0'', timestamp = ''2024-01-01T00:00:00.000Z'',
               includeSensitiveData = Some False,
               settings = Some
                 \<lparr> doc_proxyConfig = None, doc_terminal = None, doc_projectFilter = None,
                   doc_serviceProviders = Some
                     [\<lparr> dp_id = ''third_party_1'', dp_type = ''third_party'',
                        dp_name = Str ''Relay'', dp_useProxy = False,
                        dp_activeAccountId = Str ''k1'',
                        dp_accounts = Some
                          [ThirdPartyAccount ''k1'' ''Relay'' [] ''https://relay.example'' Undefined,
                           ThirdPartyAccount ''k2'' ''Broken'' [] [] Undefined,
                           ThirdPartyAccount ''k3'' ''Other'' [] ''https://other.example'' Undefined] \<rparr>] \<rparr> \<rparr>)
     defaultSettings
   = (\<lparr> success = True, error = None, imported = Some [AccountsLabel 2 None] \<rparr>,
      defaultSettings\<lparr>serviceProviders :=
        [\<lparr> prov_id = ''third_party_1'', prov_type = third_party, prov_name = Str ''Relay'',
           accounts =
             [ThirdPartyAccount ''k1'' ''Relay'' [] ''https://relay.example'' (Str []),
              ThirdPartyAccount ''k3'' ''Other'' [] ''https://other.example'' (Str [])],
           activeAccountId = Str ''k1'', useProxy = True \<rparr>]\<rparr>) \<and>
   importThirdPartyEntry False ''third_party_1'' (defaultSettings, 0, 0)
     (ThirdPartyAccount ''k2'' ''Broken'' [] [] Undefined) = (defaultSettings, 0, 0) \<and>
   storedAs ''third_party_1''
     (ThirdPartyAccount ''k1'' ''Relay'' [] ''https://relay.example'' (Str []))
     (fst (importThirdPartyEntry False ''third_party_1'' (defaultSettings, 0, 0)
        (ThirdPartyAccount ''k1'' ''Relay'' [] ''https://relay.example'' Undefined))) \<and>
   storedAs ''third_party_1''
     (ThirdPartyAccount ''k3'' ''Other'' [] ''https://other.example'' (Str []))
     (fst (importProvider False (defaultSettings, 0, 0)
        \<lparr> dp_id = ''third_party_1'', dp_type = ''third_party'',
          dp_name = Str ''Relay'', dp_useProxy = False,
          dp_activeAccountId = Str ''k1'',
          dp_accounts = Some
            [ThirdPartyAccount ''k1'' ''Relay'' [] ''https://relay.example'' Undefined,
             ThirdPartyAccount ''k2'' ''Broken'' [] [] Undefined,
             ThirdPartyAccount ''k3'' ''Other'' [] ''https://other.example'' Undefined] \<rparr>)) \<and>
   snd (importSettings
     (Parsed \<lparr> version = Str ''1.0.0'', timestamp = ''2024-01-01T00:00:00.000Z'',
               includeSensitiveData = Some False,
               settings = Some
                 \<lparr> doc_proxyConfig = None, doc_terminal = None, doc_projectFilter = None,
                   doc_serviceProviders = Some
                     [\<lparr> dp_id = ''third_party_1'', dp_type = ''third_party'',
                        dp_name = Str ''Relay'', dp_useProxy = False,
                        dp_activeAccountId = Str ''k1'',
                        dp_accounts = Some
                          [ThirdPartyAccount ''k1'' ''Relay'' [] ''https://relay.example'' Undefined,
                           ThirdPartyAccount ''k2'' ''Broken'' [] [] Undefined,
                           ThirdPartyAccount ''k3'' ''Other'' [] ''https://other.example'' Undefined] \<rparr>] \<rparr> \<rparr>)
     defaultSettings)
   = runMutators
       [AddThirdPartyAccount ''third_party_1''
          (ThirdPartyAccount ''k1'' ''Relay'' [] ''https://relay.example'' (Str [])),
        AddThirdPartyAccount ''third_party_1''
          (ThirdPartyAccount ''k3'' ''Other'' [] ''https://other.example'' (Str []))]
       defaultSettings"
proof -
  let ?k1 = "ThirdPartyAccount ''k1'' ''Relay'' [] ''https://relay.example'' Undefined"
  let ?k2 = "ThirdPartyAccount ''k2'' ''Broken'' [] [] Undefined"
  let ?k3 = "ThirdPartyAccount ''k3'' ''Other'' [] ''https://other.example'' Undefined"
  let ?dp = "\<lparr> dp_id = ''third_party_1'', dp_type = ''third_party'',
                        dp_name = Str ''Relay'', dp_useProxy = False,
                        dp_activeAccountId = Str ''k1'',
                        dp_accounts = Some [?k1, ?k2, ?k3] \<rparr>"
  let ?ds = "\<lparr> doc_proxyConfig = None, doc_terminal = None, doc_projectFilter = None,
                   doc_serviceProviders = Some [?dp] \<rparr>"
  let ?d = "\<lparr> version = Str ''1.0.0'', timestamp = ''2024-01-01T00:00:00.000Z'',
               includeSensitiveData = Some False, settings = Some ?ds \<rparr>"
  have v: "validThirdPartyEntry ?k1" "\<not> validThirdPartyEntry ?k2" "validThirdPartyEntry ?k3"
    by (simp_all add: validThirdPartyEntry_def ThirdPartyAccount_def truthy_def)
  have a: "importThirdPartyAccount False ?k1
             = ThirdPartyAccount ''k1'' ''Relay'' [] ''https://relay.example'' (Str [])"
    "importThirdPartyAccount False ?k3
             = ThirdPartyAccount ''k3'' ''Other'' [] ''https://other.example'' (Str [])"
    by (simp_all add: importThirdPartyAccount_def ThirdPartyAccount_def decodeSensitive_def
        js_or_def truthy_def)
  have w: "withoutInvalidThirdParty ?d =
     \<lparr> version = Str ''1.0.0'', timestamp = ''2024-01-01T00:00:00.000Z'',
               includeSensitiveData = Some False,
               settings = Some
                 \<lparr> doc_proxyConfig = None, doc_terminal = None, doc_projectFilter = None,
                   doc_serviceProviders = Some
                     [\<lparr> dp_id = ''third_party_1'', dp_type = ''third_party'',
                        dp_name = Str ''Relay'', dp_useProxy = False,
                        dp_activeAccountId = Str ''k1'',
                        dp_accounts = Some [?k1, ?k3] \<rparr>] \<rparr> \<rparr>"
    by (simp add: withoutInvalidThirdParty_def withoutInvalidEntries_def v)
  have l: "lastValidEntry (acc_id ?k3) [?k1, ?k2, ?k3] = ?k3"
    by (simp add: lastValidEntry_def v)
  have c: "importCalls False [?dp]
      = [AddThirdPartyAccount ''third_party_1'' (importThirdPartyAccount False ?k1),
         AddThirdPartyAccount ''third_party_1'' (importThirdPartyAccount False ?k3)]"
    by (simp add: importCalls_def providerCalls_def entryCalls_def v)
  have b: "beforeProviders False ?ds defaultSettings = (defaultSettings, [])"
    by (simp add: beforeProviders_def importProxySection_def importTerminalSection_def
        importProjectFilterSection_def)
  have t: "truthy (version ?d)" by (simp add: truthy_def)
  note invalid = importSettings_skips_invalid_entries
    [where d="?d" and s=defaultSettings and e="?k2" and h=False and pid="''third_party_1''"
       and st="(defaultSettings, 0, 0)" and dp="?dp" and accs="[?k1, ?k2, ?k3]" and ds="?ds"
       and ps="[?dp]"]
  note first = importSettings_skips_invalid_entries
    [where d="?d" and s=defaultSettings and e="?k1" and h=False and pid="''third_party_1''"
       and st="(defaultSettings, 0, 0)" and dp="?dp" and accs="[?k1, ?k2, ?k3]" and ds="?ds"
       and ps="[?dp]"]
  note third = importSettings_skips_invalid_entries
    [where d="?d" and s=defaultSettings and e="?k3" and h=False and pid="''third_party_1''"
       and st="(defaultSettings, 0, 0)" and dp="?dp" and accs="[?k1, ?k2, ?k3]" and ds="?ds"
       and ps="[?dp]"]
  have A: "importSettings (Parsed ?d) defaultSettings
   = (\<lparr> success = True, error = None, imported = Some [AccountsLabel 2 None] \<rparr>,
      defaultSettings\<lparr>serviceProviders :=
        [\<lparr> prov_id = ''third_party_1'', prov_type = third_party, prov_name = Str ''Relay'',
           accounts =
             [ThirdPartyAccount ''k1'' ''Relay'' [] ''https://relay.example'' (Str []),
              ThirdPartyAccount ''k3'' ''Other'' [] ''https://other.example'' (Str [])],
           activeAccountId = Str ''k1'', useProxy = True \<rparr>]\<rparr>)"
    using invalid[THEN conjunct1]
    unfolding w
    by (simp add: importSettings_def importDocument_def importProxySection_def
        importTerminalSection_def importProjectFilterSection_def importProvidersSection_def
        importProvider_def importThirdPartyEntry_def validThirdPartyEntry_def
        importThirdPartyAccount_def decodeSensitive_def js_or_def truthy_def
        addThirdPartyAccount_def addServiceProvider_def getServiceProviders_def
        defaultSettings_def ThirdPartyAccount_def Let_def)
  have B: "importThirdPartyEntry False ''third_party_1'' (defaultSettings, 0, 0) ?k2
      = (defaultSettings, 0, 0)"
    using invalid[THEN conjunct2, THEN conjunct2, THEN conjunct1] v(2) by (rule mp)
  have C: "storedAs ''third_party_1'' (importThirdPartyAccount False ?k1)
     (fst (importThirdPartyEntry False ''third_party_1'' (defaultSettings, 0, 0) ?k1))"
    using first[THEN conjunct2, THEN conjunct2, THEN conjunct2, THEN conjunct1, THEN mp, OF v(1)]
    by (rule conjunct1)
  have D: "storedAs ''third_party_1'' (importThirdPartyAccount False (lastValidEntry (acc_id ?k3) [?k1, ?k2, ?k3]))
     (fst (importProvider False (defaultSettings, 0, 0) ?dp))"
    using third[THEN conjunct2, THEN conjunct2, THEN conjunct2, THEN conjunct2, THEN conjunct1]
      v(3)
    by simp
  have E: "snd (importSettings (Parsed ?d) defaultSettings)
      = runMutators (importCalls False [?dp]) (fst (beforeProviders False ?ds defaultSettings))"
    using invalid[THEN conjunct2, THEN conjunct2, THEN conjunct2, THEN conjunct2, THEN conjunct2]
      t
    by simp
  show ?thesis
    using A B C D[unfolded l] E unfolding c b a by simp
qed

subsection \<open>Export followed by import\<close>

lemma encodeData_nonempty: "x \<noteq> [] \<Longrightarrow> encodeData x \<noteq> []"
  by (cases x rule: base64_encode.cases) (simp_all add: encodeData_def Let_def)

lemma decodeSensitive_encodeSensitive:
  "decodeSensitive True (encodeSensitive True v) = (if truthy v then v else Undefined)"
  by (cases v) (simp_all add: decodeSensitive_def encodeSensitive_def encodeData_nonempty
      decodeData_encodeData truthy_def)

lemma importClaudeAccount_export:
  "claudeShaped a \<Longrightarrow>
     importClaudeAccount True (exportClaudeAccount True a) = restoredAccount claude_official a"
  by (simp add: importClaudeAccount_def exportClaudeAccount_def claudeShaped_def
      decodeSensitive_encodeSensitive restoredAccount_def)

lemma importThirdPartyAccount_export:
  "thirdPartyShaped a \<Longrightarrow>
     importThirdPartyAccount True (exportThirdPartyAccount True a)
       = restoredAccount third_party a"
  by (cases "apiKey a")
    (auto simp: importThirdPartyAccount_def exportThirdPartyAccount_def thirdPartyShaped_def
      decodeSensitive_encodeSensitive restoredAccount_def truthy_def)

lemma valid_exportThirdPartyAccount:
  "thirdPartyShaped a \<Longrightarrow> validThirdPartyEntry (exportThirdPartyAccount h a)"
  by (simp add: validThirdPartyEntry_def exportThirdPartyAccount_def thirdPartyShaped_def)

lemma foldl_mergeAccount_fresh:
  "distinct (map emailAddress accs) \<Longrightarrow>
   (\<forall>a \<in> set accs. \<forall>x \<in> set xs. emailAddress x \<noteq> emailAddress a) \<Longrightarrow>
     foldl mergeAccount xs accs = xs @ accs"
proof (induction accs arbitrary: xs)
  case Nil
  show ?case by simp
next
  case (Cons a accs)
  have m: "mergeAccount xs a = xs @ [a]"
    using Cons.prems(2) by (intro mergeAccount_fresh) simp
  have d: "\<forall>b \<in> set accs. emailAddress a \<noteq> emailAddress b"
    using Cons.prems(1) by (metis distinct.simps(2) image_eqI list.simps(9) set_map)
  have "foldl mergeAccount (xs @ [a]) accs = (xs @ [a]) @ accs"
    using Cons.prems d by (intro Cons.IH) auto
  then show ?case by (simp add: m)
qed

lemma upsertWith_append_new:
  "(\<forall>z \<in> set xs. \<not> P z) \<Longrightarrow> upsertWith P f y xs = xs @ [y]"
  by (induction xs) auto

lemma upsertWith_last:
  "(\<forall>z \<in> set xs. \<not> P z) \<Longrightarrow> P x \<Longrightarrow> upsertWith P f y (xs @ [x]) = xs @ [f x]"
  by (induction xs) auto

lemma find_absent: "(\<forall>z \<in> set xs. \<not> P z) \<Longrightarrow> find P xs = None"
  by (simp add: find_None_iff)

lemma find_last: "(\<forall>z \<in> set xs. \<not> P z) \<Longrightarrow> P x \<Longrightarrow> find P (xs @ [x]) = Some x"
  by (induction xs) auto

lemma addThirdPartyAccount_first:
  assumes "\<forall>q \<in> set (serviceProviders s). prov_id q \<noteq> X"
  shows "serviceProviders (addThirdPartyAccount X a s) =
     serviceProviders s @
       [\<lparr> prov_id = X, prov_type = third_party, prov_name = acc_name a, accounts = [a],
          activeAccountId = acc_id a, useProxy = True \<rparr>]"
proof -
  have f: "find (\<lambda>p. prov_id p = X) (getServiceProviders s) = None"
    using assms by (simp add: find_None_iff getServiceProviders_def)
  have "addThirdPartyAccount X a s =
      addServiceProvider \<lparr> prov_id = X, prov_type = third_party, prov_name = acc_name a,
          accounts = [a], activeAccountId = acc_id a, useProxy = True \<rparr> s"
    by (simp add: addThirdPartyAccount_def f Let_def truthy_def)
  then show ?thesis
    using assms by (simp add: serviceProviders_addServiceProvider upsertWith_append_new)
qed

lemma addThirdPartyAccount_next:
  assumes "serviceProviders s = cur @ [q]" and "prov_id q = X"
    and "\<forall>z \<in> set cur. prov_id z \<noteq> X"
    and "\<forall>x \<in> set (accounts q). acc_id x \<noteq> acc_id a"
    and "truthy (activeAccountId q)"
  shows "serviceProviders (addThirdPartyAccount X a s) = cur @ [q\<lparr>accounts := accounts q @ [a]\<rparr>]"
proof -
  have f: "find (\<lambda>p. prov_id p = X) (getServiceProviders s) = Some q"
    using assms(1,2,3) by (simp add: getServiceProviders_def find_last)
  have i: "findIndex (\<lambda>acc. acc_id acc = acc_id a) (accounts q) = None"
    using assms(4) by (simp add: findIndex_None_iff)
  have "addThirdPartyAccount X a s = addServiceProvider (q\<lparr>accounts := accounts q @ [a]\<rparr>) s"
    using assms(5) by (simp add: addThirdPartyAccount_def f i Let_def)
  then show ?thesis
    using assms(1,2,3)
    by (simp add: serviceProviders_addServiceProvider upsertWith_last)
qed

lemma serviceProviders_entries_next:
  assumes "serviceProviders s = cur @ [q]" and "prov_id q = X"
    and "\<forall>z \<in> set cur. prov_id z \<noteq> X"
    and "truthy (activeAccountId q)"
    and "list_all validThirdPartyEntry es"
    and "distinct (map acc_id es)"
    and "\<forall>e \<in> set es. \<forall>x \<in> set (accounts q). acc_id x \<noteq> acc_id e"
  shows "serviceProviders (fst (foldl (importThirdPartyEntry h X) (s, n, k) es))
     = cur @ [q\<lparr>accounts := accounts q @ map (importThirdPartyAccount h) es\<rparr>]"
  using assms
proof (induction es arbitrary: s q n k)
  case Nil
  then show ?case by simp
next
  case (Cons e es)
  let ?a = "importThirdPartyAccount h e"
  let ?s = "addThirdPartyAccount X ?a s"
  let ?q = "q\<lparr>accounts := accounts q @ [?a]\<rparr>"
  have v: "validThirdPartyEntry e" using Cons.prems(5) by simp
  have s': "serviceProviders ?s = cur @ [?q]"
    using Cons.prems(7) by (intro addThirdPartyAccount_next[OF Cons.prems(1,2,3) _ Cons.prems(4)]) simp
  obtain n' k' where st: "importThirdPartyEntry h X (s, n, k) e = (?s, n', k')"
    using v by (simp add: importThirdPartyEntry_def)
  have d: "\<forall>e' \<in> set es. acc_id e \<noteq> acc_id e'"
    using Cons.prems(6) by (metis distinct.simps(2) image_eqI list.simps(9) set_map)
  have "serviceProviders (fst (foldl (importThirdPartyEntry h X) (?s, n', k') es))
     = cur @ [?q\<lparr>accounts := accounts ?q @ map (importThirdPartyAccount h) es\<rparr>]"
  proof (rule Cons.IH[OF s'])
    show "prov_id ?q = X" using Cons.prems(2) by simp
    show "\<forall>z \<in> set cur. prov_id z \<noteq> X" by (rule Cons.prems(3))
    show "truthy (activeAccountId ?q)" using Cons.prems(4) by simp
    show "list_all validThirdPartyEntry es" using Cons.prems(5) by simp
    show "distinct (map acc_id es)" using Cons.prems(6) by simp
    show "\<forall>e \<in> set es. \<forall>x \<in> set (accounts ?q). acc_id x \<noteq> acc_id e"
      using Cons.prems(7) d by auto
  qed
  then show ?case by (simp add: st)
qed

lemma serviceProviders_entries_first:
  assumes "\<forall>q \<in> set (serviceProviders s). prov_id q \<noteq> X"
    and "list_all validThirdPartyEntry (e # es)"
    and "distinct (map acc_id (e # es))"
  shows "serviceProviders (fst (foldl (importThirdPartyEntry h X) (s, n, k) (e # es)))
     = serviceProviders s @
         [\<lparr> prov_id = X, prov_type = third_party, prov_name = acc_name e,
            accounts = map (importThirdPartyAccount h) (e # es),
            activeAccountId = acc_id e, useProxy = True \<rparr>]"
proof -
  let ?a = "importThirdPartyAccount h e"
  let ?s = "addThirdPartyAccount X ?a s"
  let ?q = "\<lparr> prov_id = X, prov_type = third_party, prov_name = acc_name ?a, accounts = [?a],
          activeAccountId = acc_id ?a, useProxy = True \<rparr>"
  have v: "validThirdPartyEntry e" using assms(2) by simp
  have s': "serviceProviders ?s = serviceProviders s @ [?q]"
    by (rule addThirdPartyAccount_first[OF assms(1)])
  obtain n' k' where st: "importThirdPartyEntry h X (s, n, k) e = (?s, n', k')"
    using v by (simp add: importThirdPartyEntry_def)
  have d: "\<forall>e' \<in> set es. acc_id e \<noteq> acc_id e'"
    using assms(3) by (metis distinct.simps(2) image_eqI list.simps(9) set_map)
  have "serviceProviders (fst (foldl (importThirdPartyEntry h X) (?s, n', k') es))
     = serviceProviders s @ [?q\<lparr>accounts := accounts ?q @ map (importThirdPartyAccount h) es\<rparr>]"
  proof (rule serviceProviders_entries_next[OF s'])
    show "prov_id ?q = X" by simp
    show "\<forall>z \<in> set (serviceProviders s). prov_id z \<noteq> X" by (rule assms(1))
    show "truthy (activeAccountId ?q)" using v by (simp add: validThirdPartyEntry_def)
    show "list_all validThirdPartyEntry es" using assms(2) by simp
    show "distinct (map acc_id es)" using assms(3) by simp
    show "\<forall>e \<in> set es. \<forall>x \<in> set (accounts ?q). acc_id x \<noteq> acc_id e"
      using d by simp
  qed
  then show ?thesis by (simp add: st importThirdPartyAccount_def)
qed

lemma serviceProviders_updateClaudeAccounts_new:
  assumes "\<forall>q \<in> set (serviceProviders s). prov_type q \<noteq> claude_official"
    and "\<forall>q \<in> set (serviceProviders s). prov_id q \<noteq> ''claude_official''"
    and "distinct (map emailAddress accs)"
  shows "\<exists>act. serviceProviders (updateClaudeAccounts accs s) =
     serviceProviders s @ [newClaudeProvider\<lparr>accounts := accs, activeAccountId := act\<rparr>]"
proof -
  have "findClaudeProvider s = None"
    using assms(1) by (simp add: findClaudeProvider_def getServiceProviders_def find_None_iff)
  then have P: "claudeProviderOrNew s = newClaudeProvider"
    by (simp add: claudeProviderOrNew_def)
  have a: "accounts newClaudeProvider = []" and i: "prov_id newClaudeProvider = ''claude_official''"
    by (simp_all add: newClaudeProvider_def)
  have m: "foldl mergeAccount [] accs = accs"
    using foldl_mergeAccount_fresh[OF assms(3), of "[]"] by simp
  obtain act where "updateClaudeAccounts accs s =
      addServiceProvider (newClaudeProvider\<lparr>accounts := accs, activeAccountId := act\<rparr>) s"
    by (simp add: updateClaudeAccounts_def P a m Let_def)
  then show ?thesis
    using assms(2) by (auto simp: serviceProviders_addServiceProvider i upsertWith_append_new)
qed

lemma importProvider_exportProvider:
  assumes "wellFormedProvider p"
    and "\<forall>q \<in> set (serviceProviders (fst st)). prov_id q \<noteq> prov_id p"
    and "\<forall>q \<in> set (serviceProviders (fst st)).
           prov_type q = claude_official \<longrightarrow> prov_id q = ''claude_official''"
  shows "\<exists>R. serviceProviders (fst (importProvider True st (exportProvider True p)))
              = serviceProviders (fst st) @ R \<and>
            map (\<lambda>r. (prov_id r, prov_type r, accounts r)) R = restoredProviders [p] \<and>
            (\<forall>r \<in> set R. prov_id r = prov_id p \<and>
               (prov_type r = claude_official \<longrightarrow> prov_id r = ''claude_official''))"
proof (cases "prov_type p")
  case claude_official
  obtain s n k where st: "st = (s, n, k)" by (cases st) auto
  have wf: "prov_id p = ''claude_official''" "list_all claudeShaped (accounts p)"
    "distinct (map emailAddress (accounts p))"
    using assms(1) claude_official by (simp_all add: wellFormedProvider_def)
  have reimp: "map (importClaudeAccount True \<circ> exportClaudeAccount True) (accounts p)
      = restoredAccounts p"
    using wf(2)
    by (simp add: restoredAccounts_def claude_official list_all_iff importClaudeAccount_export)
  have em: "map emailAddress (restoredAccounts p) = map emailAddress (accounts p)"
    by (simp add: restoredAccounts_def restoredAccount_def claude_official comp_def)
  have wf3: "distinct (map emailAddress (restoredAccounts p))" using wf(3) em by simp
  have noid: "\<forall>q \<in> set (serviceProviders s). prov_id q \<noteq> ''claude_official''"
    using assms(2) wf(1) st by simp
  then have noty: "\<forall>q \<in> set (serviceProviders s). prov_type q \<noteq> claude_official"
    using assms(3) st by auto
  obtain act where u: "serviceProviders (updateClaudeAccounts (restoredAccounts p) s) =
     serviceProviders s @ [newClaudeProvider\<lparr>accounts := restoredAccounts p, activeAccountId := act\<rparr>]"
    using serviceProviders_updateClaudeAccounts_new[OF noty noid wf3] by blast
  have "fst (importProvider True st (exportProvider True p)) = updateClaudeAccounts (restoredAccounts p) s"
    by (simp add: st importProvider_def exportProvider_def providerTypeString_def claude_official
        reimp Let_def)
  moreover have "map (\<lambda>r. (prov_id r, prov_type r, accounts r))
        [newClaudeProvider\<lparr>accounts := restoredAccounts p, activeAccountId := act\<rparr>] = restoredProviders [p]"
    by (simp add: restoredProviders_def claude_official wf(1) newClaudeProvider_def)
  ultimately show ?thesis
    using u st wf(1) by (intro exI[where x="[newClaudeProvider\<lparr>accounts := restoredAccounts p, activeAccountId := act\<rparr>]"])
      (simp add: newClaudeProvider_def)
next
  case third_party
  obtain s n k where st: "st = (s, n, k)" by (cases st) auto
  have wf: "list_all thirdPartyShaped (accounts p)" "distinct (map acc_id (accounts p))"
    using assms(1) third_party by (simp_all add: wellFormedProvider_def)
  let ?es = "map (exportThirdPartyAccount True) (accounts p)"
  have imp: "importProvider True st (exportProvider True p)
      = foldl (importThirdPartyEntry True (prov_id p)) st ?es"
    by (simp add: st importProvider_def exportProvider_def providerTypeString_def third_party)
  show ?thesis
  proof (cases "accounts p")
    case Nil
    then show ?thesis
      by (simp add: imp[unfolded st] st restoredProviders_def third_party)
  next
    case (Cons a as)
    have v: "list_all validThirdPartyEntry ?es"
      using wf(1) by (simp add: list_all_iff valid_exportThirdPartyAccount)
    have d: "distinct (map acc_id ?es)"
      using wf(2) by (simp add: comp_def exportThirdPartyAccount_def)
    have reimp: "map (importThirdPartyAccount True \<circ> exportThirdPartyAccount True) (accounts p)
        = restoredAccounts p"
      using wf(1)
      by (simp add: restoredAccounts_def third_party list_all_iff importThirdPartyAccount_export)
    have ne: "accounts p \<noteq> []" using Cons by simp
    let ?r = "\<lparr> prov_id = prov_id p, prov_type = third_party,
            prov_name = acc_name (exportThirdPartyAccount True a),
            accounts = map (importThirdPartyAccount True) ?es,
            activeAccountId = acc_id (exportThirdPartyAccount True a), useProxy = True \<rparr>"
    have "serviceProviders (fst (foldl (importThirdPartyEntry True (prov_id p)) (s, n, k) ?es))
        = serviceProviders s @ [?r]"
      using serviceProviders_entries_first[of s "prov_id p" "exportThirdPartyAccount True a"
          "map (exportThirdPartyAccount True) as" True n k] assms(2) v d
      by (simp add: st Cons)
    moreover have "map (\<lambda>r. (prov_id r, prov_type r, accounts r)) [?r] = restoredProviders [p]"
      using ne by (simp add: restoredProviders_def third_party reimp)
    ultimately show ?thesis
      by (intro exI[where x="[?r]"]) (simp add: imp[unfolded st] st)
  qed
qed

lemma restoredProviders_Cons:
  "restoredProviders (p # ps) = restoredProviders [p] @ restoredProviders ps"
  by (simp add: restoredProviders_def)

lemma foldl_importProvider_export:
  assumes "distinct (map prov_id ps)" and "list_all wellFormedProvider ps"
    and "\<forall>q \<in> set (serviceProviders (fst st)). \<forall>p \<in> set ps. prov_id q \<noteq> prov_id p"
    and "\<forall>q \<in> set (serviceProviders (fst st)).
           prov_type q = claude_official \<longrightarrow> prov_id q = ''claude_official''"
  shows "\<exists>R. serviceProviders (fst (foldl (importProvider True) st (map (exportProvider True) ps)))
              = serviceProviders (fst st) @ R \<and>
            map (\<lambda>r. (prov_id r, prov_type r, accounts r)) R = restoredProviders ps"
  using assms
proof (induction ps arbitrary: st)
  case Nil
  then show ?case by (simp add: restoredProviders_def)
next
  case (Cons p ps)
  let ?st = "importProvider True st (exportProvider True p)"
  obtain R1 where R1: "serviceProviders (fst ?st) = serviceProviders (fst st) @ R1"
    "map (\<lambda>r. (prov_id r, prov_type r, accounts r)) R1 = restoredProviders [p]"
    "\<forall>r \<in> set R1. prov_id r = prov_id p \<and>
               (prov_type r = claude_official \<longrightarrow> prov_id r = ''claude_official'')"
    using importProvider_exportProvider[of p st] Cons.prems by auto
  have d: "\<forall>p' \<in> set ps. prov_id p \<noteq> prov_id p'"
    using Cons.prems(1) by (metis distinct.simps(2) image_eqI list.simps(9) set_map)
  obtain R2 where R2: "serviceProviders (fst (foldl (importProvider True) ?st (map (exportProvider True) ps)))
              = serviceProviders (fst ?st) @ R2"
    "map (\<lambda>r. (prov_id r, prov_type r, accounts r)) R2 = restoredProviders ps"
  proof -
    have "\<exists>R. serviceProviders (fst (foldl (importProvider True) ?st (map (exportProvider True) ps)))
              = serviceProviders (fst ?st) @ R \<and>
            map (\<lambda>r. (prov_id r, prov_type r, accounts r)) R = restoredProviders ps"
    proof (rule Cons.IH)
      show "distinct (map prov_id ps)" using Cons.prems(1) by simp
      show "list_all wellFormedProvider ps" using Cons.prems(2) by simp
      show "\<forall>q \<in> set (serviceProviders (fst ?st)). \<forall>p \<in> set ps. prov_id q \<noteq> prov_id p"
        unfolding R1(1) using Cons.prems(3) R1(3) d by auto
      show "\<forall>q \<in> set (serviceProviders (fst ?st)).
           prov_type q = claude_official \<longrightarrow> prov_id q = ''claude_official''"
        unfolding R1(1) using Cons.prems(4) R1(3) by auto
    qed
    then show ?thesis using that by blast
  qed
  show ?case
    using R1(1,2) R2 restoredProviders_Cons[of p ps]
    by (intro exI[where x="R1 @ R2"]) simp
qed

text \<open>
  C2, as amended. For a well-formed registry, the export with sensitive data followed by
  the import into the default settings gives back the providers in their order, each with
  its \<open>id\<close>, its type and its accounts, the tokens and keys decoded to what they were: an
  official account with every field (an \<open>authorization\<close> that was \<open>null\<close> or empty is
  missing afterwards), a third-party account with every field (a \<open>description\<close> that was
  missing is the empty string afterwards); a third-party provider without accounts is not
  made again. \<open>decodeData\<close> after \<open>encodeData\<close> is the identity on every well-formed
  string, the empty string among them.
\<close>

theorem roundTrip_restores_accounts:
  "(wellFormedRegistry s \<longrightarrow>
      map (\<lambda>r. (prov_id r, prov_type r, accounts r)) (serviceProviders (roundTrip now s))
        = restoredProviders (serviceProviders s)) \<and>
   (wellFormedUtf8 x \<longrightarrow> decodeData (encodeData x) = x)"
proof (intro conjI impI)
  assume wf: "wellFormedRegistry s"
  let ?st = "\<lparr> doc_proxyConfig = Some
             \<lparr> doc_enabled = enabled (proxyConfig s),
               doc_url = url (proxyConfig s),
               doc_auth =
                 (case auth (proxyConfig s) of
                    Some a \<Rightarrow>
                      if True
                      then Some \<lparr> doc_username = Str (encodeData (username a)),
                                  doc_password = Str (encodeData (password a)) \<rparr>
                      else None
                  | None \<Rightarrow> None) \<rparr>,
           doc_terminal = Some
             \<lparr> pt_fontSize = Some (fontSize (terminal s)),
               pt_fontFamily = Some (fontFamily (terminal s)),
               pt_theme = Some (theme (terminal s)),
               pt_skipPermissions = Some (skipPermissions (terminal s)) \<rparr>,
           doc_projectFilter = Some
             \<lparr> pf_hiddenDirectories = Some (hiddenDirectories (projectFilter s)) \<rparr>,
           doc_serviceProviders = Some
             (map (exportProvider True) (serviceProviders s)) \<rparr>"
  have rt: "roundTrip now s = snd (importDocument True ?st defaultSettings)"
    by (simp add: roundTrip_def importSettings_def exportSettings_def truthy_def)
  obtain s3 where s3: "serviceProviders s3 = serviceProviders defaultSettings"
    "snd (importDocument True ?st defaultSettings)
       = fst (foldl (importProvider True) (s3, 0, 0) (map (exportProvider True) (serviceProviders s)))"
    using snd_importDocument[of ?st "map (exportProvider True) (serviceProviders s)" defaultSettings True]
    by auto
  have e: "serviceProviders s3 = []" using s3(1) by (simp add: defaultSettings_def)
  obtain R where "serviceProviders (fst (foldl (importProvider True) (s3, 0, 0)
                     (map (exportProvider True) (serviceProviders s)))) = serviceProviders (fst (s3, 0::nat, 0::nat)) @ R"
    "map (\<lambda>r. (prov_id r, prov_type r, accounts r)) R = restoredProviders (serviceProviders s)"
    using foldl_importProvider_export[of "serviceProviders s" "(s3, 0, 0)"] wf e
    by (auto simp: wellFormedRegistry_def)
  then show "map (\<lambda>r. (prov_id r, prov_type r, accounts r)) (serviceProviders (roundTrip now s))
        = restoredProviders (serviceProviders s)"
    by (simp add: rt s3(2) e)
next
  show "decodeData (encodeData x) = x" by (rule decodeData_encodeData)
qed

theorem roundTrip_restores_accounts_witness:
  "map (\<lambda>r. (prov_id r, prov_type r, accounts r))
     (serviceProviders
        (roundTrip ''2024-01-01T00:00:00.000Z''
           (defaultSettings\<lparr>serviceProviders :=
          [newClaudeProvider
             \<lparr>accounts := [ClaudeAccount ''u1'' ''a@x.com'' ''o'' ''admin'' Null ''Org'' (Str ''T'')],
              activeAccountId := Str ''a@x.com''\<rparr>,
           \<lparr> prov_id = ''third_party_1'', prov_type = third_party, prov_name = Str ''My relay'',
             accounts = [ThirdPartyAccount ''k1'' ''Relay'' ''sk-1'' ''https://relay.example'' Undefined],
             activeAccountId = Str ''k1'', useProxy = False \<rparr>]\<rparr>)))
     = [(''claude_official'', claude_official,
         [ClaudeAccount ''u1'' ''a@x.com'' ''o'' ''admin'' Null ''Org'' (Str ''T'')]),
        (''third_party_1'', third_party,
         [ThirdPartyAccount ''k1'' ''Relay'' ''sk-1'' ''https://relay.example'' (Str [])])] \<and>
   decodeData (encodeData ''sk-1'') = ''sk-1''"
proof -
  let ?s = "defaultSettings\<lparr>serviceProviders :=
          [newClaudeProvider
             \<lparr>accounts := [ClaudeAccount ''u1'' ''a@x.com'' ''o'' ''admin'' Null ''Org'' (Str ''T'')],
              activeAccountId := Str ''a@x.com''\<rparr>,
           \<lparr> prov_id = ''third_party_1'', prov_type = third_party, prov_name = Str ''My relay'',
             accounts = [ThirdPartyAccount ''k1'' ''Relay'' ''sk-1'' ''https://relay.example'' Undefined],
             activeAccountId = Str ''k1'', useProxy = False \<rparr>]\<rparr>"
  have wf: "wellFormedRegistry ?s"
    by code_simp
  have u: "wellFormedUtf8 ''sk-1''"
    by code_simp
  have r: "restoredProviders (serviceProviders ?s)
     = [(''claude_official'', claude_official,
         [ClaudeAccount ''u1'' ''a@x.com'' ''o'' ''admin'' Null ''Org'' (Str ''T'')]),
        (''third_party_1'', third_party,
         [ThirdPartyAccount ''k1'' ''Relay'' ''sk-1'' ''https://relay.example'' (Str [])])]"
    by (simp add: restoredProviders_def restoredAccounts_def restoredAccount_def
        newClaudeProvider_def ClaudeAccount_def ThirdPartyAccount_def js_or_def truthy_def)
  show ?thesis
    using roundTrip_restores_accounts[of ?s "''2024-01-01T00:00:00.000Z''" "''sk-1''"] wf r u
    by simp
qed

text \<open>
  The claim as stated fails on the fields of a provider: the import reads \<open>name\<close>,
  \<open>useProxy\<close> and \<open>activeAccountId\<close> of no entry. A third-party provider named
  \<open>My relay\<close> that does not use the proxy comes back with the \<open>name\<close> of its first
  account and with \<open>useProxy\<close> set.
\<close>

theorem roundTrip_loses_provider_fields:
  "map (\<lambda>p. (prov_id p, prov_name p, useProxy p))
     (serviceProviders
        (defaultSettings\<lparr>serviceProviders :=
          [newClaudeProvider
             \<lparr>accounts := [ClaudeAccount ''u1'' ''a@x.com'' ''o'' ''admin'' Null ''Org'' (Str ''T'')],
              activeAccountId := Str ''a@x.com''\<rparr>,
           \<lparr> prov_id = ''third_party_1'', prov_type = third_party, prov_name = Str ''My relay'',
             accounts = [ThirdPartyAccount ''k1'' ''Relay'' ''sk-1'' ''https://relay.example'' Undefined],
             activeAccountId = Str ''k1'', useProxy = False \<rparr>]\<rparr>))
     = [(''claude_official'', Str ''Claude Official'', True),
        (''third_party_1'', Str ''My relay'', False)] \<and>
   map (\<lambda>p. (prov_id p, prov_name p, useProxy p))
     (serviceProviders
        (roundTrip ''2024-01-01T00:00:00.000Z''
           (defaultSettings\<lparr>serviceProviders :=
          [newClaudeProvider
             \<lparr>accounts := [ClaudeAccount ''u1'' ''a@x.com'' ''o'' ''admin'' Null ''Org'' (Str ''T'')],
              activeAccountId := Str ''a@x.com''\<rparr>,
           \<lparr> prov_id = ''third_party_1'', prov_type = third_party, prov_name = Str ''My relay'',
             accounts = [ThirdPartyAccount ''k1'' ''Relay'' ''sk-1'' ''https://relay.example'' Undefined],
             activeAccountId = Str ''k1'', useProxy = False \<rparr>]\<rparr>)))
     = [(''claude_official'', Str ''Claude Official'', True),
        (''third_party_1'', Str ''Relay'', True)]"
  by code_simp

end
